theory Spec2Isabelle
  imports Main
begin

section \<open>Protocol constants (common/protocol.h)\<close>

text \<open>
  The result codes carried in the \<open>error_code\<close> field of a frame. C strings are
  modelled as HOL strings (NUL-free, shorter than the fixed buffers of the frame), C
  \<open>int\<close> values as \<open>int\<close>: the handlers only compare them and add or subtract one.
\<close>

definition RESP_SUCCESS :: int where "RESP_SUCCESS = 200"
definition RESP_SS_INFO :: int where "RESP_SS_INFO = 201"
definition ERR_FILE_NOT_FOUND :: int where "ERR_FILE_NOT_FOUND = 404"
definition ERR_PERMISSION_DENIED :: int where "ERR_PERMISSION_DENIED = 403"
definition ERR_FILE_LOCKED :: int where "ERR_FILE_LOCKED = 423"
definition ERR_FILE_EXISTS :: int where "ERR_FILE_EXISTS = 409"
definition ERR_INVALID_REQUEST :: int where "ERR_INVALID_REQUEST = 400"
definition ERR_SERVER_ERROR :: int where "ERR_SERVER_ERROR = 500"
definition ERR_SS_UNAVAILABLE :: int where "ERR_SS_UNAVAILABLE = 503"
definition ERR_SENTENCE_OUT_OF_RANGE :: int where "ERR_SENTENCE_OUT_OF_RANGE = 422"
definition ERR_WORD_OUT_OF_RANGE :: int where "ERR_WORD_OUT_OF_RANGE = 421"
definition ERR_REQUEST_NOT_FOUND :: int where "ERR_REQUEST_NOT_FOUND = 428"

text \<open>
  The reply fields a handler sets before \<open>send_message\<close>. The data field is either a
  string copied as it is (\<open>Raw\<close>) or a message built by \<open>snprintf\<close>, kept as the
  format string and its arguments (\<open>Fmt\<close>) rather than rendered; \<open>ATime t\<close> is
  the argument \<open>format_time(t)\<close>.
\<close>

datatype farg = AStr string | AInt int | ATime int

datatype fdata = Raw string | Fmt string "farg list"

record reply =
  error_code :: int
  word_index :: int
  data :: fdata

section \<open>Sentence locks (storage_server/lock_manager.c, storage_server.c)\<close>

text \<open>
  The lock table is a singly linked list with insertion at the head; a list of records
  in the same order models it. \<open>locked_at\<close> is the value \<open>time(NULL)\<close> returned when
  the lock was taken.
\<close>

record SentenceLock =
  lk_filename :: string
  lk_sentence_num :: int
  lk_username :: string
  lk_locked_at :: int

text \<open>\<open>find_sentence_lock\<close>: the first entry for the file and sentence, if any.\<close>

fun find_sentence_lock :: "SentenceLock list \<Rightarrow> string \<Rightarrow> int \<Rightarrow> SentenceLock option" where
  "find_sentence_lock [] f n = None"
| "find_sentence_lock (l # ls) f n =
     (if lk_filename l = f \<and> lk_sentence_num l = n then Some l
      else find_sentence_lock ls f n)"

text \<open>
  The scan at the start of \<open>add_sentence_lock\<close>: it compares file name and sentence
  number only, never the user name.
\<close>

fun already_locked :: "SentenceLock list \<Rightarrow> string \<Rightarrow> int \<Rightarrow> bool" where
  "already_locked [] f n = False"
| "already_locked (l # ls) f n =
     (if lk_filename l = f \<and> lk_sentence_num l = n then True
      else already_locked ls f n)"

text \<open>\<open>add_sentence_lock\<close> returns 0 (already locked) or 1 (acquired) and the new table.\<close>

definition add_sentence_lock ::
  "SentenceLock list \<Rightarrow> string \<Rightarrow> int \<Rightarrow> string \<Rightarrow> int \<Rightarrow> int \<times> SentenceLock list" where
  "add_sentence_lock locks f n u now =
     (if already_locked locks f n then (0, locks)
      else (1, \<lparr>lk_filename = f, lk_sentence_num = n, lk_username = u, lk_locked_at = now\<rparr> # locks))"

text \<open>
  \<open>remove_sentence_lock\<close> unlinks the first entry that matches file, sentence and user.
\<close>

fun remove_sentence_lock :: "SentenceLock list \<Rightarrow> string \<Rightarrow> int \<Rightarrow> string \<Rightarrow> SentenceLock list" where
  "remove_sentence_lock [] f n u = []"
| "remove_sentence_lock (l # ls) f n u =
     (if lk_filename l = f \<and> lk_sentence_num l = n \<and> lk_username l = u then ls
      else l # remove_sentence_lock ls f n u)"

text \<open>
  The lock attempt of the MSG_WRITE handler: on refusal the reply is \<open>ERR_FILE_LOCKED\<close>
  with the holder's name as data (\<open>Inl\<close>); otherwise the handler goes on with the new
  lock table (\<open>Inr\<close>). The word index of the reply is the one of the request.
\<close>

definition write_lock_attempt ::
  "SentenceLock list \<Rightarrow> string \<Rightarrow> int \<Rightarrow> string \<Rightarrow> int \<Rightarrow> int \<Rightarrow> reply + SentenceLock list" where
  "write_lock_attempt locks f n u now widx =
     (case add_sentence_lock locks f n u now of (r, locks') \<Rightarrow>
        if r = 0 then
          (case find_sentence_lock locks' f n of
             Some l \<Rightarrow> Inl \<lparr>error_code = ERR_FILE_LOCKED, word_index = widx, data = Raw (lk_username l)\<rparr>
           | None \<Rightarrow> Inl \<lparr>error_code = ERR_FILE_LOCKED, word_index = widx, data = Raw []\<rparr>)
        else Inr locks')"

section \<open>Sentence parser (storage_server/sentence_parser.c, storage_server.c)\<close>

text \<open>
  \<open>isspace\<close> in the C locale (space, tab, newline, vertical tab, form feed, carriage
  return) and the test \<open>*p == '.' || *p == '!' || *p == '?'\<close>.
\<close>

definition isspace_c :: "char \<Rightarrow> bool" where
  "isspace_c c \<longleftrightarrow> c = CHR '' '' \<or> c = CHR 0x09 \<or> c = CHR 0x0A \<or> c = CHR 0x0B
                     \<or> c = CHR 0x0C \<or> c = CHR 0x0D"

definition is_delim :: "char \<Rightarrow> bool" where
  "is_delim c \<longleftrightarrow> c = CHR ''.'' \<or> c = CHR ''!'' \<or> c = CHR ''?''"

text \<open>
  \<open>sentence_has_delimiter\<close>. \<open>trim_len s len\<close> is the loop
  \<open>while (len > 0 && isspace(sentence[len - 1])) len--\<close>.
\<close>

fun trim_len :: "string \<Rightarrow> nat \<Rightarrow> nat" where
  "trim_len s 0 = 0"
| "trim_len s (Suc n) = (if isspace_c (s ! n) then trim_len s n else Suc n)"

definition sentence_has_delimiter :: "string \<Rightarrow> bool" where
  "sentence_has_delimiter s =
     (if s = [] then False
      else let len = trim_len s (length s) in
        if len = 0 then False
        else if \<not> is_delim (s ! (len - 1)) then False
        else if 2 \<le> len \<and> is_delim (s ! (len - 2)) then False
        else True)"

text \<open>
  \<open>parse_sentences\<close>, in the order of the source: the whitespace-only check, the
  counting loop over \<open>(*sentence_count, in_sentence)\<close>, and the extraction loop.
\<close>

fun has_non_whitespace :: "string \<Rightarrow> bool" where
  "has_non_whitespace [] = False"
| "has_non_whitespace (c # cs) = (if \<not> isspace_c c then True else has_non_whitespace cs)"

fun count_loop :: "string \<Rightarrow> nat \<Rightarrow> bool \<Rightarrow> nat \<times> bool" where
  "count_loop [] n b = (n, b)"
| "count_loop (c # cs) n b =
     (if is_delim c then count_loop cs (Suc n) False
      else if \<not> b \<and> \<not> isspace_c c then count_loop cs n True
      else count_loop cs n b)"

text \<open>
  The extraction loop \<open>while (*p && idx < *sentence_count)\<close>. \<open>cur\<close> is the text
  between the pointers \<open>start\<close> and \<open>p\<close>, the last argument what is left at \<open>p\<close>.
  At a delimiter the sentence \<open>start .. p\<close> is copied, and the whitespace after it is
  skipped before \<open>start\<close> is set. When the loop ends, the rest is copied as a last
  sentence if \<open>idx < *sentence_count && *start\<close>.
\<close>

function extract_loop :: "nat \<Rightarrow> nat \<Rightarrow> string \<Rightarrow> string \<Rightarrow> string list" where
  "extract_loop idx cnt cur [] = (if idx < cnt \<and> cur \<noteq> [] then [cur] else [])"
| "extract_loop idx cnt cur (c # cs) =
     (if idx < cnt then
        (if is_delim c then (cur @ [c]) # extract_loop (Suc idx) cnt [] (dropWhile isspace_c cs)
         else extract_loop idx cnt (cur @ [c]) cs)
      else [])"
  by pat_completeness auto
termination
  by (relation "measure (\<lambda>(idx, cnt, cur, p). length p)")
     (auto simp: le_imp_less_Suc length_dropWhile_le)

text \<open>
  \<open>parse_sentences\<close> returns the array of sentences and \<open>*sentence_count\<close>
  (\<open>NULL\<close> and 0 are the empty list and 0).
\<close>

definition parse_sentences :: "string \<Rightarrow> string list \<times> nat" where
  "parse_sentences content =
     (if content = [] then ([], 0)
      else if \<not> has_non_whitespace content then ([], 0)
      else case count_loop content 0 False of (n, in_sentence) \<Rightarrow>
        let cnt = (if in_sentence then Suc n else n) in
        if cnt = 0 then ([], 0)
        else (extract_loop 0 cnt [] content, cnt))"

text \<open>
  For the statements about the parser: the text after the last delimiter of a string
  (the whole string when it has none), and whether the extraction loop still has a
  sentence to emit after the last delimiter.
\<close>

fun after_last :: "string \<Rightarrow> string" where
  "after_last [] = []"
| "after_last (c # cs) =
     (if list_ex is_delim cs then after_last cs else if is_delim c then cs else c # cs)"

definition tail_pending :: "string \<Rightarrow> string \<Rightarrow> bool" where
  "tail_pending cur p =
     (if list_ex is_delim p then (\<exists>c \<in> set (after_last p). \<not> isspace_c c) else cur @ p \<noteq> [])"

section \<open>WRITE sessions (storage_server.c, storage_server_modular.c)\<close>

subsection \<open>Words\<close>

text \<open>
  \<open>parse_words\<close> tokenises with \<open>strtok(copy, " \t\n")\<close>: the separators are space,
  tab and newline only. \<open>strtok_loop cur rest\<close> walks the string, \<open>cur\<close> being the
  token under construction; empty tokens are never returned. The word count is the length
  of the list.
\<close>

definition is_tok_sep :: "char \<Rightarrow> bool" where
  "is_tok_sep c \<longleftrightarrow> c = CHR '' '' \<or> c = CHR 0x09 \<or> c = CHR 0x0A"

fun strtok_loop :: "string \<Rightarrow> string \<Rightarrow> string list" where
  "strtok_loop cur [] = (if cur = [] then [] else [cur])"
| "strtok_loop cur (c # cs) =
     (if is_tok_sep c then (if cur = [] then strtok_loop [] cs else cur # strtok_loop [] cs)
      else strtok_loop (cur @ [c]) cs)"



text \<open>
  \<open>rebuild_sentence\<close>: the words joined by single spaces (\<open>if (i > 0) strcat(result, " ")\<close>).
\<close>

fun rebuild_loop :: "string \<Rightarrow> nat \<Rightarrow> string list \<Rightarrow> string" where
  "rebuild_loop res i [] = res"
| "rebuild_loop res i (w # ws) =
     rebuild_loop ((if 0 < i then res @ '' '' else res) @ w) (Suc i) ws"

definition rebuild_sentence :: "string list \<Rightarrow> string" where
  "rebuild_sentence ws = (if length ws = 0 then [] else rebuild_loop [] 0 ws)"

definition MAX_DATA :: nat where "MAX_DATA = 4096"

subsection \<open>Which sentence a WRITE request may open\<close>

text \<open>
  The check of the MSG_WRITE handler between \<open>parse_sentences\<close> and the lock attempt
  (the same text in storage_server.c and storage_server_modular.c, up to the wording of
  the messages, which are those of storage_server.c here). \<open>content\<close> is the buffer the
  handler has read the file into. The result is the error reply, or the sentence array the
  session goes on with.
\<close>

definition write_select_sentence :: "string \<Rightarrow> int \<Rightarrow> reply + string list" where
  "write_select_sentence content sentence_num =
     (case parse_sentences content of (parsed, parsed_count) \<Rightarrow>
      let sentences = (if length content = 0 \<or> parsed_count = 0 then [] else parsed);
          sentence_count = (if length content = 0 \<or> parsed_count = 0 then 0 else int parsed_count)
      in
      if sentence_count = 0 then
        (if sentence_num \<noteq> 0 then
           Inl \<lparr>error_code = ERR_SENTENCE_OUT_OF_RANGE, word_index = 0,
                data = Fmt ''File is empty. Only sentence 0 is accessible.'' []\<rparr>
         else Inr [[]])
      else if sentence_num < 0 then
        Inl \<lparr>error_code = ERR_SENTENCE_OUT_OF_RANGE, word_index = sentence_count - 1,
             data = Fmt ''Invalid sentence number. Must be non-negative.'' []\<rparr>
      else if sentence_num = sentence_count then
        (if 0 < sentence_count \<and> \<not> sentence_has_delimiter (sentences ! nat (sentence_count - 1)) then
           Inl \<lparr>error_code = ERR_SENTENCE_OUT_OF_RANGE, word_index = sentence_count - 1,
                data = Fmt ''Cannot access sentence %d. Previous sentence %d must end with a single delimiter (., !, ?).''
                         [AInt sentence_num, AInt (sentence_count - 1)]\<rparr>
         else Inr (sentences @ [[]]))
      else if sentence_num > sentence_count then
        Inl \<lparr>error_code = ERR_SENTENCE_OUT_OF_RANGE, word_index = sentence_count,
             data = Fmt ''Cannot skip sentences. File has %d sentence(s). Can access 0 to %d.''
                      [AInt sentence_count, AInt sentence_count]\<rparr>
      else Inr sentences)"

subsection \<open>The edit loop\<close>

text \<open>
  The state of a session: the sentence array and the word array of the sentence being
  edited; \<open>sentence_count\<close> and \<open>word_count\<close> are the lengths of the lists.
\<close>

record edit_state =
  es_sentences :: "string list"
  es_words :: "string list"

text \<open>
  The two array loops of an insertion. \<open>shift_right ws pos n k\<close> is
  \<open>for (i = k - 1; i >= pos; i--) ws[i + n] = ws[i]\<close>, and \<open>store_tokens ws pos ts\<close>
  is \<open>for (i = 0; i < n; i++) ws[pos + i] = ts[i]\<close>. \<open>realloc\<close> lengthens the array
  by slots of unknown content, the parameter \<open>junk\<close>.
\<close>

fun shift_right :: "'a list \<Rightarrow> nat \<Rightarrow> nat \<Rightarrow> nat \<Rightarrow> 'a list" where
  "shift_right ws pos n 0 = ws"
| "shift_right ws pos n (Suc i) =
     (if pos \<le> i then shift_right (ws[i + n := ws ! i]) pos n i else ws)"





text \<open>
  One update frame in storage_server_modular.c. The index check is the same. An empty
  payload deletes the word at the index (\<open>shift_left\<close> is
  \<open>for (i = word_idx; i < word_count - 1; i++) words[i] = words[i + 1]\<close>); any other
  payload is stored as one word, without tokenising (\<open>shift_one\<close> is
  \<open>for (i = word_count - 1; i > word_idx; i--) words[i] = words[i - 1]\<close> on the
  lengthened array). The reply carries the payload back.
\<close>

function shift_left :: "'a list \<Rightarrow> nat \<Rightarrow> nat \<Rightarrow> 'a list" where
  "shift_left ws i n = (if Suc i < n then shift_left (ws[i := ws ! Suc i]) (Suc i) n else ws)"
  by pat_completeness auto
termination
  by (relation "measure (\<lambda>(ws, i, n). n - i)") auto

declare shift_left.simps [simp del]





section \<open>Undo (storage_server/undo_manager.c, storage_server.c, storage_server_modular.c)\<close>

text \<open>
  The undo table is a linked list of \<open>(filename, flag)\<close> with insertion at the head.
  \<open>get_undo_state\<close> returns the first entry of the file; \<open>set_undo_state\<close> overwrites
  the flag of that entry, or adds an entry when the loop finds none (\<open>update_undo_state\<close>
  is the loop, \<open>None\<close> when it runs to the end).
\<close>

record UndoState =
  us_filename :: string
  us_undo_performed :: int

fun get_undo_state :: "UndoState list \<Rightarrow> string \<Rightarrow> UndoState option" where
  "get_undo_state [] f = None"
| "get_undo_state (u # us) f = (if us_filename u = f then Some u else get_undo_state us f)"

fun update_undo_state :: "UndoState list \<Rightarrow> string \<Rightarrow> int \<Rightarrow> UndoState list option" where
  "update_undo_state [] f v = None"
| "update_undo_state (u # us) f v =
     (if us_filename u = f then Some (u\<lparr>us_undo_performed := v\<rparr> # us)
      else map_option ((#) u) (update_undo_state us f v))"

definition set_undo_state :: "UndoState list \<Rightarrow> string \<Rightarrow> int \<Rightarrow> UndoState list" where
  "set_undo_state us f v =
     (case update_undo_state us f v of
        Some us' \<Rightarrow> us'
      | None \<Rightarrow> \<lparr>us_filename = f, us_undo_performed = v\<rparr> # us)"

text \<open>
  The state of a storage node: its two directories as maps from the name of a file in
  the directory to its content (\<open>storage_dir\<close> and \<open>backup_dir\<close> are different
  directories), the undo table and the lock table. \<open>file_exists\<close> and opening for
  reading succeed exactly when the name is in the map; opening for writing always succeeds.
\<close>

record node_state =
  ns_storage :: "string \<rightharpoonup> string"
  ns_backups :: "string \<rightharpoonup> string"
  ns_undo_states :: "UndoState list"
  ns_locks :: "SentenceLock list"

text \<open>
  The MSG_UNDO handler of storage_server.c: the live file goes to \<open>.tmp_backup\<close>, the
  \<open>.backup\<close> sidecar is copied over the live file, the temporary copy is renamed to be
  the new sidecar, and the flag of the file is set. The word index of the reply is the one
  of the request.
\<close>

definition handle_undo :: "node_state \<Rightarrow> string \<Rightarrow> int \<Rightarrow> reply \<times> node_state" where
  "handle_undo s f widx =
     (case ns_storage s f of
        None \<Rightarrow> (\<lparr>error_code = ERR_FILE_NOT_FOUND, word_index = widx,
                   data = Fmt ''File not found'' []\<rparr>, s)
      | Some live \<Rightarrow>
        (case ns_backups s (f @ ''.backup'') of
           None \<Rightarrow> (\<lparr>error_code = ERR_SERVER_ERROR, word_index = widx,
                      data = Fmt ''No backup available. File has not been modified yet.'' []\<rparr>, s)
         | Some bak \<Rightarrow>
           if (case get_undo_state (ns_undo_states s) f of
                 None \<Rightarrow> False | Some u \<Rightarrow> us_undo_performed u = 1)
           then (\<lparr>error_code = ERR_PERMISSION_DENIED, word_index = widx,
                   data = Fmt ''Cannot perform consecutive UNDO. Please modify the file first before undoing again.'' []\<rparr>, s)
           else
             let backups1 = (ns_backups s)(f @ ''.tmp_backup'' \<mapsto> live);
                 storage1 = (ns_storage s)(f \<mapsto> bak);
                 backups2 = (backups1(f @ ''.backup'' \<mapsto> live))(f @ ''.tmp_backup'' := None)
             in (\<lparr>error_code = RESP_SUCCESS, word_index = widx,
                  data = Fmt ''File reverted to previous version'' []\<rparr>,
                 s\<lparr>ns_storage := storage1, ns_backups := backups2,
                   ns_undo_states := set_undo_state (ns_undo_states s) f 1\<rparr>)))"

text \<open>
  The MSG_UNDO handler of storage_server_modular.c: the flag is tested first, the live
  file is not required to exist, and the sidecar is copied over it without being replaced.
\<close>

definition handle_undo_modular :: "node_state \<Rightarrow> string \<Rightarrow> int \<Rightarrow> reply \<times> node_state" where
  "handle_undo_modular s f widx =
     (if (case get_undo_state (ns_undo_states s) f of
            None \<Rightarrow> False | Some u \<Rightarrow> us_undo_performed u \<noteq> 0)
      then (\<lparr>error_code = ERR_INVALID_REQUEST, word_index = widx,
              data = Fmt ''Cannot undo twice consecutively'' []\<rparr>, s)
      else
        (case ns_backups s (f @ ''.backup'') of
           None \<Rightarrow> (\<lparr>error_code = ERR_FILE_NOT_FOUND, word_index = widx,
                      data = Fmt ''No backup available to undo'' []\<rparr>, s)
         | Some bak \<Rightarrow>
             (\<lparr>error_code = RESP_SUCCESS, word_index = widx, data = Fmt ''Undo successful'' []\<rparr>,
              s\<lparr>ns_storage := (ns_storage s)(f \<mapsto> bak),
                ns_undo_states := set_undo_state (ns_undo_states s) f 1\<rparr>)))"

text \<open>
  The ETIRW branch of the edit loop in storage_server.c, with the release of the lock
  that follows the loop. \<open>write_sentences\<close> is the text both loops over the sentence
  array produce: a space after a sentence that is neither empty nor the last. The file
  gets this text and a newline, through a \<open>.tmp\<close> file renamed over it; before that the
  old content goes to the \<open>.backup\<close> sidecar; afterwards the flag of the file is cleared
  and the first 40960 bytes of the new file are copied to the backup directory.
\<close>

fun write_sentences :: "string list \<Rightarrow> string" where
  "write_sentences [] = []"
| "write_sentences (x # xs) =
     x @ (if xs \<noteq> [] \<and> 0 < length x then '' '' else []) @ write_sentences xs"

definition handle_etirw ::
  "node_state \<Rightarrow> string \<Rightarrow> nat \<Rightarrow> string \<Rightarrow> edit_state \<Rightarrow> int \<Rightarrow> reply \<times> node_state" where
  "handle_etirw s f sentence_num username st widx =
     (let sentences = (es_sentences st)[sentence_num := rebuild_sentence (es_words st)];
          backups1 = (case ns_storage s f of
                        None \<Rightarrow> ns_backups s
                      | Some orig \<Rightarrow> (ns_backups s)(f @ ''.backup'' \<mapsto> orig));
          text = write_sentences sentences @ [CHR 0x0A];
          storage1 = (ns_storage s)(f @ ''.tmp'' \<mapsto> text);
          storage2 = (storage1(f \<mapsto> text))(f @ ''.tmp'' := None);
          backups2 = backups1(f \<mapsto> take (4096 * 10) text)
      in (\<lparr>error_code = RESP_SUCCESS, word_index = widx,
           data = Raw (take (MAX_DATA - 1) (write_sentences sentences))\<rparr>,
          s\<lparr>ns_storage := storage2, ns_backups := backups2,
            ns_undo_states := set_undo_state (ns_undo_states s) f 0,
            ns_locks := remove_sentence_lock (ns_locks s) f (int sentence_num) username\<rparr>))"

text \<open>
  The ETIRW branch of storage_server_modular.c: the sidecar is opened for writing whether
  or not the live file can be read, the file is rewritten in place with a space between
  any two sentences and no final newline, and the reply is a fixed text.
\<close>

fun join_sentences :: "string list \<Rightarrow> string" where
  "join_sentences [] = []"
| "join_sentences (x # xs) = x @ (if xs \<noteq> [] then '' '' else []) @ join_sentences xs"

definition handle_etirw_modular ::
  "node_state \<Rightarrow> string \<Rightarrow> nat \<Rightarrow> string \<Rightarrow> edit_state \<Rightarrow> int \<Rightarrow> reply \<times> node_state" where
  "handle_etirw_modular s f sentence_num username st widx =
     (let sentences = (es_sentences st)[sentence_num := rebuild_sentence (es_words st)];
          backups1 = (ns_backups s)(f @ ''.backup'' \<mapsto> (case ns_storage s f of None \<Rightarrow> [] | Some orig \<Rightarrow> orig));
          text = join_sentences sentences;
          storage1 = (ns_storage s)(f \<mapsto> text);
          backups2 = backups1(f \<mapsto> take (MAX_DATA * 10) text)
      in (\<lparr>error_code = RESP_SUCCESS, word_index = widx, data = Raw ''Changes saved''\<rparr>,
          s\<lparr>ns_storage := storage1, ns_backups := backups2,
            ns_undo_states := set_undo_state (ns_undo_states s) f 0,
            ns_locks := remove_sentence_lock (ns_locks s) f (int sentence_num) username\<rparr>))"

section \<open>Access control (naming_server/access_control.c, naming_server.c)\<close>

text \<open>
  A file record with the fields the handlers below read or write: name, owner, assigned
  storage server, last access time, ACL and access requests. The ACL and the request list
  are linked lists with insertion at the head.
\<close>

record AccessControl =
  acl_username :: string
  can_read :: int
  can_write :: int

record AccessRequestNode =
  request_id :: int
  requester :: string
  access_type :: int
  requested_at :: int
  status :: int

record FileEntry =
  fe_name :: string
  fe_owner :: string
  fe_storage_server_id :: string
  fe_last_accessed :: int
  fe_acl :: "AccessControl list"
  fe_access_requests :: "AccessRequestNode list"

text \<open>\<open>check_permission\<close>: the owner first, then the first ACL entry of the user.\<close>

fun check_acl :: "AccessControl list \<Rightarrow> string \<Rightarrow> int \<Rightarrow> int" where
  "check_acl [] username need_write = 0"
| "check_acl (a # acl) username need_write =
     (if acl_username a = username then (if need_write \<noteq> 0 then can_write a else can_read a)
      else check_acl acl username need_write)"

definition check_permission :: "FileEntry \<Rightarrow> string \<Rightarrow> int \<Rightarrow> int" where
  "check_permission entry username need_write =
     (if fe_owner entry = username then 1 else check_acl (fe_acl entry) username need_write)"

text \<open>
  \<open>add_access\<close>: the loop overwrites the rights of the first entry of the user
  (\<open>update_access\<close>, \<open>None\<close> when there is none) and returns 1; otherwise a new entry
  goes to the head and the result is 0.
\<close>

fun update_access :: "AccessControl list \<Rightarrow> string \<Rightarrow> int \<Rightarrow> int \<Rightarrow> AccessControl list option" where
  "update_access [] username r w = None"
| "update_access (a # acl) username r w =
     (if acl_username a = username then Some (a\<lparr>can_read := r, can_write := w\<rparr> # acl)
      else map_option ((#) a) (update_access acl username r w))"

definition add_access :: "FileEntry \<Rightarrow> string \<Rightarrow> int \<Rightarrow> int \<Rightarrow> int \<times> FileEntry" where
  "add_access entry username r w =
     (case update_access (fe_acl entry) username r w of
        Some acl' \<Rightarrow> (1, entry\<lparr>fe_acl := acl'\<rparr>)
      | None \<Rightarrow> (0, entry\<lparr>fe_acl := \<lparr>acl_username = username, can_read = r, can_write = w\<rparr> # fe_acl entry\<rparr>))"

text \<open>\<open>remove_access\<close> unlinks the first entry of the user: 1 if there was one, else 0.\<close>

fun remove_acl :: "AccessControl list \<Rightarrow> string \<Rightarrow> AccessControl list option" where
  "remove_acl [] username = None"
| "remove_acl (a # acl) username =
     (if acl_username a = username then Some acl
      else map_option ((#) a) (remove_acl acl username))"

definition remove_access :: "FileEntry \<Rightarrow> string \<Rightarrow> int \<times> FileEntry" where
  "remove_access entry username =
     (case remove_acl (fe_acl entry) username of
        Some acl' \<Rightarrow> (1, entry\<lparr>fe_acl := acl'\<rparr>)
      | None \<Rightarrow> (0, entry))"

text \<open>
  \<open>add_access_request\<close>: refused with -1 when the requester has a pending request on
  the file; otherwise the request gets the next id. The last component is the global
  \<open>next_request_id\<close> afterwards.
\<close>

fun has_pending :: "AccessRequestNode list \<Rightarrow> string \<Rightarrow> bool" where
  "has_pending [] u = False"
| "has_pending (q # qs) u = (if requester q = u \<and> status q = 0 then True else has_pending qs u)"

definition add_access_request ::
  "FileEntry \<Rightarrow> string \<Rightarrow> int \<Rightarrow> int \<Rightarrow> int \<Rightarrow> int \<times> FileEntry \<times> int" where
  "add_access_request entry u atype next_request_id now =
     (if has_pending (fe_access_requests entry) u then (- 1, entry, next_request_id)
      else (next_request_id,
            entry\<lparr>fe_access_requests :=
                    \<lparr>request_id = next_request_id, requester = u, access_type = atype,
                      requested_at = now, status = 0\<rparr> # fe_access_requests entry\<rparr>,
            next_request_id + 1))"

text \<open>
  \<open>respond_to_request\<close>: the first pending request with the id gets status 1 (approved)
  or 2 (denied); on approval \<open>add_access\<close> is called with rights computed from the access
  type alone. \<open>mark_request\<close> is the loop; it returns the new list and the request found.
\<close>

fun mark_request ::
  "AccessRequestNode list \<Rightarrow> int \<Rightarrow> int \<Rightarrow> (AccessRequestNode list \<times> AccessRequestNode) option" where
  "mark_request [] rid approve = None"
| "mark_request (q # qs) rid approve =
     (if request_id q = rid \<and> status q = 0
      then Some (q\<lparr>status := (if approve \<noteq> 0 then 1 else 2)\<rparr> # qs, q)
      else map_option (\<lambda>(qs', found). (q # qs', found)) (mark_request qs rid approve))"

definition respond_to_request :: "FileEntry \<Rightarrow> int \<Rightarrow> int \<Rightarrow> int \<times> FileEntry" where
  "respond_to_request entry rid approve =
     (case mark_request (fe_access_requests entry) rid approve of
        None \<Rightarrow> (- 1, entry)
      | Some (reqs', req) \<Rightarrow>
          let entry1 = entry\<lparr>fe_access_requests := reqs'\<rparr> in
          if approve \<noteq> 0 then
            let r = (if access_type req = 1 \<or> access_type req = 3 then 1 else 0);
                w = (if access_type req = 2 \<or> access_type req = 3 then 1 else 0)
            in (0, snd (add_access entry1 (requester req) r w))
          else (0, entry1))"

text \<open>
  The handlers of the coordinator. \<open>entry\<close> is the result of \<open>lookup_file\<close>
  (\<open>None\<close> for \<open>NULL\<close>), \<open>users\<close> the list of registered users, \<open>client_username\<close> the
  user of the session; a handler returns its reply and the record as it leaves it.
  \<open>scan_word\<close> is \<open>sscanf(msg.data, "%s", target_user)\<close>: leading whitespace is skipped
  and the characters up to the next whitespace are read (for a blank payload the C buffer
  stays uninitialised; the model reads the empty string).
\<close>

definition scan_word :: "string \<Rightarrow> string" where
  "scan_word s = takeWhile (\<lambda>c. \<not> isspace_c c) (dropWhile isspace_c s)"

fun user_exists :: "string list \<Rightarrow> string \<Rightarrow> bool" where
  "user_exists [] u = False"
| "user_exists (x # xs) u = (if x = u then True else user_exists xs u)"

definition handle_add_access ::
  "string list \<Rightarrow> FileEntry option \<Rightarrow> string \<Rightarrow> string \<Rightarrow> int \<Rightarrow> string \<Rightarrow> int
     \<Rightarrow> reply \<times> FileEntry option" where
  "handle_add_access users entry filename client_username flags payload widx =
     (case entry of
        None \<Rightarrow> (\<lparr>error_code = ERR_FILE_NOT_FOUND, word_index = widx,
                   data = Fmt ''Error: File '%s' not found'' [AStr filename]\<rparr>, None)
      | Some e \<Rightarrow>
          if fe_owner e \<noteq> client_username then
            (\<lparr>error_code = ERR_PERMISSION_DENIED, word_index = widx,
              data = Fmt ''Error: Only the owner can grant access'' []\<rparr>, Some e)
          else
            let target_user = scan_word payload in
            if \<not> user_exists users target_user then
              (\<lparr>error_code = ERR_INVALID_REQUEST, word_index = widx,
                data = Fmt ''Error: User '%s' not found'' [AStr target_user]\<rparr>, Some e)
            else
              let can_read0 = (if and flags 1 \<noteq> 0 then 1 else 0);
                  can_write = (if and flags 2 \<noteq> 0 then 1 else (0::int));
                  can_read = (if can_write \<noteq> 0 then 1 else can_read0)
              in case add_access e target_user can_read can_write of (result, e') \<Rightarrow>
                (\<lparr>error_code = RESP_SUCCESS, word_index = widx,
                  data = (if result = 0
                          then Fmt (''Granted %s access to '%s' for user '%s'' @ [CHR 0x27])
                                 [AStr (if can_write \<noteq> 0 then ''write'' else ''read''),
                                  AStr filename, AStr target_user]
                          else Fmt (''Updated access to %s for user '%s'' @ [CHR 0x27])
                                 [AStr (if can_write \<noteq> 0 then ''write'' else ''read''),
                                  AStr target_user])\<rparr>,
                 Some e'))"

definition handle_rem_access ::
  "FileEntry option \<Rightarrow> string \<Rightarrow> string \<Rightarrow> string \<Rightarrow> int \<Rightarrow> reply \<times> FileEntry option" where
  "handle_rem_access entry filename client_username payload widx =
     (case entry of
        None \<Rightarrow> (\<lparr>error_code = ERR_FILE_NOT_FOUND, word_index = widx,
                   data = Fmt ''Error: File '%s' not found'' [AStr filename]\<rparr>, None)
      | Some e \<Rightarrow>
          if fe_owner e \<noteq> client_username then
            (\<lparr>error_code = ERR_PERMISSION_DENIED, word_index = widx,
              data = Fmt ''Error: Only the owner can revoke access'' []\<rparr>, Some e)
          else
            let target_user = scan_word payload in
            if target_user = client_username then
              (\<lparr>error_code = ERR_INVALID_REQUEST, word_index = widx,
                data = Fmt ''Error: Owner cannot remove their own access'' []\<rparr>, Some e)
            else
              case remove_access e target_user of (result, e') \<Rightarrow>
                if result = 1 then
                  (\<lparr>error_code = RESP_SUCCESS, word_index = widx,
                    data = Fmt (''Removed all access to '%s' for user '%s'' @ [CHR 0x27])
                             [AStr filename, AStr target_user]\<rparr>, Some e')
                else
                  (\<lparr>error_code = ERR_INVALID_REQUEST, word_index = widx,
                    data = Fmt (''User '%s' did not have access to '%s'' @ [CHR 0x27])
                             [AStr target_user, AStr filename]\<rparr>, Some e'))"

definition handle_request_access ::
  "FileEntry option \<Rightarrow> string \<Rightarrow> int \<Rightarrow> int \<Rightarrow> int \<Rightarrow> int
     \<Rightarrow> reply \<times> FileEntry option \<times> int" where
  "handle_request_access entry client_username flags next_request_id now widx =
     (case entry of
        None \<Rightarrow> (\<lparr>error_code = ERR_FILE_NOT_FOUND, word_index = widx,
                   data = Fmt ''Error: File not found'' []\<rparr>, None, next_request_id)
      | Some e \<Rightarrow>
          if fe_owner e = client_username then
            (\<lparr>error_code = ERR_INVALID_REQUEST, word_index = widx,
              data = Fmt ''Error: You already own this file'' []\<rparr>, Some e, next_request_id)
          else
            case add_access_request e client_username flags next_request_id now of
              (rid, e', next') \<Rightarrow>
                if rid < 0 then
                  (\<lparr>error_code = ERR_FILE_EXISTS, word_index = widx,
                    data = Fmt ''Error: You already have a pending request for this file'' []\<rparr>,
                   Some e', next')
                else
                  (\<lparr>error_code = RESP_SUCCESS, word_index = widx,
                    data = Fmt ''Access request submitted (ID: %d). Owner will be notified.''
                             [AInt rid]\<rparr>, Some e', next'))"

definition handle_respond_request ::
  "FileEntry option \<Rightarrow> string \<Rightarrow> int \<Rightarrow> int \<Rightarrow> int \<Rightarrow> reply \<times> FileEntry option" where
  "handle_respond_request entry client_username rid flags widx =
     (case entry of
        None \<Rightarrow> (\<lparr>error_code = ERR_FILE_NOT_FOUND, word_index = widx,
                   data = Fmt ''Error: File not found'' []\<rparr>, None)
      | Some e \<Rightarrow>
          if fe_owner e \<noteq> client_username then
            (\<lparr>error_code = ERR_PERMISSION_DENIED, word_index = widx,
              data = Fmt ''Error: Only the file owner can respond to access requests'' []\<rparr>, Some e)
          else
            case respond_to_request e rid flags of (result, e') \<Rightarrow>
              if result < 0 then
                (\<lparr>error_code = ERR_REQUEST_NOT_FOUND, word_index = widx,
                  data = Fmt ''Error: Request ID %d not found or already processed'' [AInt rid]\<rparr>,
                 Some e')
              else
                (\<lparr>error_code = RESP_SUCCESS, word_index = widx,
                  data = Fmt ''Request %s'' [AStr (if flags \<noteq> 0 then ''approved'' else ''denied'')]\<rparr>,
                 Some e'))"

text \<open>The two invariants of a file record the specification states.\<close>

definition write_implies_read :: "FileEntry \<Rightarrow> bool" where
  "write_implies_read e \<longleftrightarrow> list_all (\<lambda>a. can_write a = 1 \<longrightarrow> can_read a = 1) (fe_acl e)"

definition owner_not_in_acl :: "FileEntry \<Rightarrow> bool" where
  "owner_not_in_acl e \<longleftrightarrow> fe_owner e \<notin> set (map acl_username (fe_acl e))"

section \<open>User sessions (naming_server/user_session_manager.c, naming_server.c)\<close>

text \<open>
  The active sessions are a linked list with insertion at the head; the user registry is
  modelled by the list of its user names (\<open>user_exists\<close> is its scan).
\<close>

record ActiveSession =
  as_username :: string
  as_client_socket :: int
  as_client_ip :: string
  as_login_time :: int

fun find_active_session :: "ActiveSession list \<Rightarrow> string \<Rightarrow> ActiveSession option" where
  "find_active_session [] u = None"
| "find_active_session (x # xs) u = (if as_username x = u then Some x else find_active_session xs u)"

fun session_exists :: "ActiveSession list \<Rightarrow> string \<Rightarrow> bool" where
  "session_exists [] u = False"
| "session_exists (x # xs) u = (if as_username x = u then True else session_exists xs u)"

definition add_active_session ::
  "ActiveSession list \<Rightarrow> string \<Rightarrow> int \<Rightarrow> string \<Rightarrow> int \<Rightarrow> int \<times> ActiveSession list" where
  "add_active_session ss u sock ip now =
     (if session_exists ss u then (0, ss)
      else (1, \<lparr>as_username = u, as_client_socket = sock, as_client_ip = ip, as_login_time = now\<rparr> # ss))"

fun remove_active_session :: "ActiveSession list \<Rightarrow> string \<Rightarrow> ActiveSession list" where
  "remove_active_session [] u = []"
| "remove_active_session (x # xs) u =
     (if as_username x = u then xs else x # remove_active_session xs u)"

definition register_user :: "string list \<Rightarrow> string \<Rightarrow> string list" where
  "register_user users u = (if user_exists users u then users else u # users)"

text \<open>
  The MSG_REGISTER_CLIENT branch at the start of \<open>handle_client\<close> (the same in
  naming_server.c and naming_server_modular.c). The result is the reply, the session list
  and the user registry afterwards, and whether the thread goes on to the request loop
  (\<open>True\<close>) or closes the socket and returns (\<open>False\<close>).
\<close>

definition handle_register_client ::
  "ActiveSession list \<times> string list \<Rightarrow> string \<Rightarrow> int \<Rightarrow> string \<Rightarrow> int \<Rightarrow> int
     \<Rightarrow> reply \<times> (ActiveSession list \<times> string list) \<times> bool" where
  "handle_register_client st u sock ip now widx =
     (case st of (ss, users) \<Rightarrow>
      case find_active_session ss u of
        Some existing \<Rightarrow>
          (\<lparr>error_code = ERR_FILE_LOCKED, word_index = widx,
            data = Fmt ''User '%s' is already logged in from %s since %s''
                     [AStr u, AStr (as_client_ip existing), ATime (as_login_time existing)]\<rparr>,
           (ss, users), False)
      | None \<Rightarrow>
          let users' = register_user users u in
          case add_active_session ss u sock ip now of (r, ss') \<Rightarrow>
            if r = 0 then
              (\<lparr>error_code = ERR_FILE_LOCKED, word_index = widx,
                data = Fmt ''Login conflict detected'' []\<rparr>, (ss', users'), False)
            else
              (\<lparr>error_code = RESP_SUCCESS, word_index = widx,
                data = Fmt ''Welcome back, %s! Your data is preserved.'' [AStr u]\<rparr>,
               (ss', users'), True))"

text \<open>
  What the client threads do to the session list, one event at a time: a first frame
  MSG_REGISTER_CLIENT, or the end of a request loop, where \<open>remove_active_session\<close> is
  called with the name of the thread (the registered name, or \<open>unknown\<close> when the first
  frame was no registration).
\<close>

datatype session_event = RegisterClient string int string int | SessionEnd string

fun session_step ::
  "ActiveSession list \<times> string list \<Rightarrow> session_event \<Rightarrow> ActiveSession list \<times> string list" where
  "session_step st (RegisterClient u sock ip now) = fst (snd (handle_register_client st u sock ip now 0))"
| "session_step (ss, users) (SessionEnd u) = (remove_active_session ss u, users)"

definition run_sessions :: "session_event list \<Rightarrow> ActiveSession list \<times> string list" where
  "run_sessions evs = foldl session_step ([], []) evs"

section \<open>Storage server registry, CREATE and READ (storage_server_manager.c, naming_server.c, naming_server_modular.c)\<close>

record StorageServer =
  ss_id :: string
  ss_ip :: string
  ss_nm_port :: int
  ss_client_port :: int
  ss_socket :: int
  ss_is_active :: int
  ss_last_heartbeat :: int
  ss_failed :: int

record SSRegistration =
  reg_ss_id :: string
  reg_ip :: string
  reg_nm_port :: int
  reg_client_port :: int
  reg_files :: "string list"

text \<open>
  \<open>get_available_ss\<close> and \<open>find_ss_by_id\<close> walk the server list from its head.
\<close>

fun get_available_ss :: "StorageServer list \<Rightarrow> StorageServer option" where
  "get_available_ss [] = None"
| "get_available_ss (s # ss) = (if ss_is_active s \<noteq> 0 then Some s else get_available_ss ss)"

fun find_ss_by_id :: "StorageServer list \<Rightarrow> string \<Rightarrow> StorageServer option" where
  "find_ss_by_id [] i = None"
| "find_ss_by_id (s # ss) i = (if ss_id s = i then Some s else find_ss_by_id ss i)"

text \<open>
  The file table is a hash table with chaining, a new record going to the head of its
  chain; \<open>lookup_file\<close> returns the first record of the name in the chain. One list with
  new records at the head gives the same lookups. \<open>modify_first P g xs\<close> is a write
  through the pointer a scan has returned.
\<close>

fun lookup_file :: "FileEntry list \<Rightarrow> string \<Rightarrow> FileEntry option" where
  "lookup_file [] n = None"
| "lookup_file (e # es) n = (if fe_name e = n then Some e else lookup_file es n)"

definition add_file :: "FileEntry list \<Rightarrow> string \<Rightarrow> string \<Rightarrow> int \<Rightarrow> string \<Rightarrow> FileEntry list" where
  "add_file files name owner now sid =
     \<lparr>fe_name = name, fe_owner = owner, fe_storage_server_id = sid, fe_last_accessed = now,
       fe_acl = [], fe_access_requests = []\<rparr> # files"

fun modify_first :: "('a \<Rightarrow> bool) \<Rightarrow> ('a \<Rightarrow> 'a) \<Rightarrow> 'a list \<Rightarrow> 'a list" where
  "modify_first P g [] = []"
| "modify_first P g (x # xs) = (if P x then g x # xs else x # modify_first P g xs)"

text \<open>
  The state of the coordinator used below: server list, file table, the directories
  \<open>./cache\<close> (by file name) and \<open>./backups\<close> (by server id and file name) that READ
  consults, and the directory \<open>../cache\<close> that a rejoining server clears.
\<close>

record coordinator =
  co_servers :: "StorageServer list"
  co_files :: "FileEntry list"
  co_cache :: "string \<rightharpoonup> string"
  co_backups :: "string \<times> string \<rightharpoonup> string"
  co_parent_cache :: "string \<rightharpoonup> string"

text \<open>
  \<open>register_storage_server\<close> of storage_server_manager.c. A known id is a rejoin: the
  record is refreshed in place, the announced files are removed from \<open>../cache\<close>, and of
  the announced files those not in the table are added (owner \<open>system\<close>), the others
  reassigned to the server. A new id gets a new record at the head of the list, and all
  its files are added.
\<close>

fun rejoin_files :: "FileEntry list \<Rightarrow> string list \<Rightarrow> int \<Rightarrow> string \<Rightarrow> FileEntry list" where
  "rejoin_files files [] now sid = files"
| "rejoin_files files (n # ns) now sid =
     (case lookup_file files n of
        None \<Rightarrow> rejoin_files (add_file files n ''system'' now sid) ns now sid
      | Some e \<Rightarrow>
          rejoin_files (modify_first (\<lambda>x. fe_name x = n) (\<lambda>x. x\<lparr>fe_storage_server_id := sid\<rparr>) files)
            ns now sid)"

fun add_files :: "FileEntry list \<Rightarrow> string list \<Rightarrow> int \<Rightarrow> string \<Rightarrow> FileEntry list" where
  "add_files files [] now sid = files"
| "add_files files (n # ns) now sid = add_files (add_file files n ''system'' now sid) ns now sid"

definition new_storage_server :: "SSRegistration \<Rightarrow> int \<Rightarrow> StorageServer" where
  "new_storage_server reg now =
     \<lparr>ss_id = reg_ss_id reg, ss_ip = reg_ip reg, ss_nm_port = reg_nm_port reg,
       ss_client_port = reg_client_port reg, ss_socket = - 1, ss_is_active = 1,
       ss_last_heartbeat = now, ss_failed = 0\<rparr>"

definition register_storage_server :: "coordinator \<Rightarrow> SSRegistration \<Rightarrow> int \<Rightarrow> coordinator" where
  "register_storage_server co reg now =
     (case find_ss_by_id (co_servers co) (reg_ss_id reg) of
        Some existing \<Rightarrow>
          co\<lparr>co_servers :=
                modify_first (\<lambda>s. ss_id s = reg_ss_id reg)
                  (\<lambda>s. s\<lparr>ss_ip := reg_ip reg, ss_nm_port := reg_nm_port reg,
                         ss_client_port := reg_client_port reg, ss_is_active := 1,
                         ss_failed := 0, ss_last_heartbeat := now\<rparr>) (co_servers co),
              co_parent_cache := (\<lambda>n. if n \<in> set (reg_files reg) then None else co_parent_cache co n),
              co_files := rejoin_files (co_files co) (reg_files reg) now (ss_id existing)\<rparr>
      | None \<Rightarrow>
          co\<lparr>co_servers := new_storage_server reg now # co_servers co,
              co_files := add_files (co_files co) (reg_files reg) now (reg_ss_id reg)\<rparr>)"

text \<open>
  \<open>register_storage_server\<close> of naming_server.c has the second branch only: every
  registration puts a new record at the head.
\<close>

definition register_storage_server_ns :: "coordinator \<Rightarrow> SSRegistration \<Rightarrow> int \<Rightarrow> coordinator" where
  "register_storage_server_ns co reg now =
     co\<lparr>co_servers := new_storage_server reg now # co_servers co,
         co_files := add_files (co_files co) (reg_files reg) now (reg_ss_id reg)\<rparr>"

text \<open>
  The MSG_REGISTER_SS branch of \<open>handle_client\<close>: after the registration the accepted
  socket is stored in the first record of the id.
\<close>

definition handle_register_ss :: "coordinator \<Rightarrow> SSRegistration \<Rightarrow> int \<Rightarrow> int \<Rightarrow> coordinator" where
  "handle_register_ss co reg client_socket now =
     (let co1 = register_storage_server co reg now in
      co1\<lparr>co_servers := modify_first (\<lambda>s. ss_id s = reg_ss_id reg)
                            (\<lambda>s. s\<lparr>ss_socket := client_socket\<rparr>) (co_servers co1)\<rparr>)"

definition handle_register_ss_ns :: "coordinator \<Rightarrow> SSRegistration \<Rightarrow> int \<Rightarrow> int \<Rightarrow> coordinator" where
  "handle_register_ss_ns co reg client_socket now =
     (let co1 = register_storage_server_ns co reg now in
      co1\<lparr>co_servers := modify_first (\<lambda>s. ss_id s = reg_ss_id reg)
                            (\<lambda>s. s\<lparr>ss_socket := client_socket\<rparr>) (co_servers co1)\<rparr>)"

text \<open>
  The MSG_CREATE handler (the same in both variants). \<open>create_select_ss\<close> is the
  choice of the server: the id in the payload if there is one, else
  \<open>get_available_ss\<close>. \<open>ss_response\<close> is the answer of the server the request is
  forwarded to. The search cache, which the handler empties, is not part of the state.
\<close>

definition create_select_ss :: "StorageServer list \<Rightarrow> string \<Rightarrow> int \<Rightarrow> reply + StorageServer" where
  "create_select_ss servers payload widx =
     (if 0 < length payload then
        (case find_ss_by_id servers payload of
           None \<Rightarrow> Inl \<lparr>error_code = ERR_SS_UNAVAILABLE, word_index = widx,
                        data = Fmt ''Error: Storage server '%s' not found'' [AStr payload]\<rparr>
         | Some s \<Rightarrow> Inr s)
      else
        (case get_available_ss servers of
           None \<Rightarrow> Inl \<lparr>error_code = ERR_SS_UNAVAILABLE, word_index = widx,
                        data = Fmt ''Error: No storage server available'' []\<rparr>
         | Some s \<Rightarrow> Inr s))"

definition handle_create ::
  "coordinator \<Rightarrow> string \<Rightarrow> string \<Rightarrow> string \<Rightarrow> reply \<Rightarrow> int \<Rightarrow> int \<Rightarrow> reply \<times> coordinator" where
  "handle_create co filename client_username payload ss_response now widx =
     (case lookup_file (co_files co) filename of
        Some existing \<Rightarrow>
          (\<lparr>error_code = ERR_FILE_EXISTS, word_index = widx,
            data = Fmt ''Error: File '%s' already exists'' [AStr filename]\<rparr>, co)
      | None \<Rightarrow>
          (case create_select_ss (co_servers co) payload widx of
             Inl r \<Rightarrow> (r, co)
           | Inr s \<Rightarrow>
               if ss_socket s < 0 then
                 (\<lparr>error_code = ERR_SS_UNAVAILABLE, word_index = widx,
                   data = Fmt ''Error: Storage server not connected'' []\<rparr>, co)
               else if error_code ss_response = RESP_SUCCESS then
                 (\<lparr>error_code = RESP_SUCCESS, word_index = widx,
                   data = Fmt ''File '%s' created successfully!'' [AStr filename]\<rparr>,
                  co\<lparr>co_files := add_file (co_files co) filename client_username now (ss_id s)\<rparr>)
               else
                 (\<lparr>error_code = error_code ss_response, word_index = widx,
                   data = data ss_response\<rparr>, co)))"

text \<open>
  A READ reply may be a referral: the frame then carries the address of a storage server.
  \<open>msg_ip\<close> and \<open>msg_port\<close> below are the values these fields have in the request.
\<close>

record referral_reply = reply +
  rr_ss_ip :: string
  rr_ss_port :: int

text \<open>
  The MSG_READ handler of naming_server_modular.c. When the server of the file is unknown
  or not active, the handler tries the file \<open>./cache/<name>\<close>, then the file
  \<open>./backups/<server id>/<name>\<close> (copied to the cache when found), then
  \<open>get_available_ss\<close>, to which the file is reassigned. At most \<open>MAX_DATA - 1\<close> bytes
  of a file are sent. The result is the reply, the file record and the cache afterwards.
  \<open>read_fallback\<close> is the body of \<open>if (ss == NULL || !ss->is_active)\<close>, where the test
  \<open>failover_ss != ss\<close> compares the record found with the record of the file's server.
\<close>

definition read_fallback ::
  "coordinator \<Rightarrow> FileEntry \<Rightarrow> StorageServer option \<Rightarrow> string \<Rightarrow> int \<Rightarrow> string \<Rightarrow> int
     \<Rightarrow> referral_reply \<times> FileEntry option \<times> (string \<rightharpoonup> string)" where
  "read_fallback co e ss filename widx msg_ip msg_port =
     (case co_cache co filename of
        Some content \<Rightarrow>
          (\<lparr>error_code = RESP_SUCCESS, word_index = widx,
            data = Raw (take (MAX_DATA - 1) content),
            rr_ss_ip = msg_ip, rr_ss_port = msg_port\<rparr>, Some e, co_cache co)
      | None \<Rightarrow>
          (case co_backups co (fe_storage_server_id e, filename) of
             Some content \<Rightarrow>
               (\<lparr>error_code = RESP_SUCCESS, word_index = widx,
                 data = Raw (take (MAX_DATA - 1) content),
                 rr_ss_ip = msg_ip, rr_ss_port = msg_port\<rparr>, Some e,
                (co_cache co)(filename \<mapsto> take (MAX_DATA - 1) content))
           | None \<Rightarrow>
               (case get_available_ss (co_servers co) of
                  Some failover_ss \<Rightarrow>
                    if Some failover_ss \<noteq> ss then
                      (\<lparr>error_code = RESP_SS_INFO, word_index = widx,
                        data = Fmt ''Failover to %s:%d''
                                 [AStr (ss_ip failover_ss), AInt (ss_client_port failover_ss)],
                        rr_ss_ip = ss_ip failover_ss,
                        rr_ss_port = ss_client_port failover_ss\<rparr>,
                       Some (e\<lparr>fe_storage_server_id := ss_id failover_ss\<rparr>), co_cache co)
                    else
                      (\<lparr>error_code = ERR_SS_UNAVAILABLE, word_index = widx,
                        data = Fmt ''Error: Storage server unavailable and no backup/cache found'' [],
                        rr_ss_ip = msg_ip, rr_ss_port = msg_port\<rparr>, Some e, co_cache co)
                | None \<Rightarrow>
                    (\<lparr>error_code = ERR_SS_UNAVAILABLE, word_index = widx,
                      data = Fmt ''Error: Storage server unavailable and no backup/cache found'' [],
                      rr_ss_ip = msg_ip, rr_ss_port = msg_port\<rparr>, Some e, co_cache co))))"

definition handle_read_modular ::
  "coordinator \<Rightarrow> FileEntry option \<Rightarrow> string \<Rightarrow> string \<Rightarrow> int \<Rightarrow> int \<Rightarrow> string \<Rightarrow> int
     \<Rightarrow> referral_reply \<times> FileEntry option \<times> (string \<rightharpoonup> string)" where
  "handle_read_modular co entry filename client_username now widx msg_ip msg_port =
     (case entry of
        None \<Rightarrow>
          (\<lparr>error_code = ERR_FILE_NOT_FOUND, word_index = widx,
            data = Fmt ''Error: File '%s' not found'' [AStr filename],
            rr_ss_ip = msg_ip, rr_ss_port = msg_port\<rparr>, None, co_cache co)
      | Some e0 \<Rightarrow>
          if check_permission e0 client_username 0 = 0 then
            (\<lparr>error_code = ERR_PERMISSION_DENIED, word_index = widx,
              data = Fmt (''Error: You don't have permission to read '%s'' @ [CHR 0x27]) [AStr filename],
              rr_ss_ip = msg_ip, rr_ss_port = msg_port\<rparr>, Some e0, co_cache co)
          else
            let e = e0\<lparr>fe_last_accessed := now\<rparr> in
            (case find_ss_by_id (co_servers co) (fe_storage_server_id e) of
               None \<Rightarrow> read_fallback co e None filename widx msg_ip msg_port
             | Some s \<Rightarrow>
                 if ss_is_active s = 0 then read_fallback co e (Some s) filename widx msg_ip msg_port
                 else
                   (\<lparr>error_code = RESP_SS_INFO, word_index = widx,
                     data = Fmt ''Connect to %s:%d'' [AStr (ss_ip s), AInt (ss_client_port s)],
                     rr_ss_ip = ss_ip s, rr_ss_port = ss_client_port s\<rparr>, Some e, co_cache co)))"

text \<open>
  The MSG_READ handler of naming_server.c: when the server of the file is unknown or not
  active the reply is \<open>ERR_SS_UNAVAILABLE\<close> at once.
\<close>

definition handle_read ::
  "coordinator \<Rightarrow> FileEntry option \<Rightarrow> string \<Rightarrow> string \<Rightarrow> int \<Rightarrow> int \<Rightarrow> string \<Rightarrow> int
     \<Rightarrow> referral_reply \<times> FileEntry option \<times> (string \<rightharpoonup> string)" where
  "handle_read co entry filename client_username now widx msg_ip msg_port =
     (case entry of
        None \<Rightarrow>
          (\<lparr>error_code = ERR_FILE_NOT_FOUND, word_index = widx,
            data = Fmt ''Error: File '%s' not found'' [AStr filename],
            rr_ss_ip = msg_ip, rr_ss_port = msg_port\<rparr>, None, co_cache co)
      | Some e0 \<Rightarrow>
          if check_permission e0 client_username 0 = 0 then
            (\<lparr>error_code = ERR_PERMISSION_DENIED, word_index = widx,
              data = Fmt (''Error: You don't have permission to read '%s'' @ [CHR 0x27]) [AStr filename],
              rr_ss_ip = msg_ip, rr_ss_port = msg_port\<rparr>, Some e0, co_cache co)
          else
            let e = e0\<lparr>fe_last_accessed := now\<rparr> in
            (case find_ss_by_id (co_servers co) (fe_storage_server_id e) of
               None \<Rightarrow>
                 (\<lparr>error_code = ERR_SS_UNAVAILABLE, word_index = widx,
                   data = Fmt ''Error: Storage server unavailable'' [],
                   rr_ss_ip = msg_ip, rr_ss_port = msg_port\<rparr>, Some e, co_cache co)
             | Some s \<Rightarrow>
                 if ss_is_active s = 0 then
                   (\<lparr>error_code = ERR_SS_UNAVAILABLE, word_index = widx,
                     data = Fmt ''Error: Storage server unavailable'' [],
                     rr_ss_ip = msg_ip, rr_ss_port = msg_port\<rparr>, Some e, co_cache co)
                 else
                   (\<lparr>error_code = RESP_SS_INFO, word_index = widx,
                     data = Fmt ''Connect to %s:%d'' [AStr (ss_ip s), AInt (ss_client_port s)],
                     rr_ss_ip = ss_ip s, rr_ss_port = ss_client_port s\<rparr>, Some e, co_cache co)))"

section \<open>Properties\<close>

lemmas resp_codes =
  RESP_SUCCESS_def RESP_SS_INFO_def ERR_FILE_NOT_FOUND_def ERR_PERMISSION_DENIED_def
  ERR_FILE_LOCKED_def ERR_FILE_EXISTS_def
  ERR_INVALID_REQUEST_def ERR_SERVER_ERROR_def ERR_SS_UNAVAILABLE_def
  ERR_SENTENCE_OUT_OF_RANGE_def ERR_WORD_OUT_OF_RANGE_def ERR_REQUEST_NOT_FOUND_def

subsection \<open>Sentence locks\<close>

lemma already_locked_iff:
  "already_locked locks f n \<longleftrightarrow> (\<exists>l \<in> set locks. lk_filename l = f \<and> lk_sentence_num l = n)"
  by (induction locks) auto

lemma already_locked_find:
  "already_locked locks f n \<Longrightarrow>
     \<exists>l. find_sentence_lock locks f n = Some l \<and> l \<in> set locks
           \<and> lk_filename l = f \<and> lk_sentence_num l = n"
  by (induction locks) (auto split: if_splits)

text \<open>
  C10. Sentence-lock acquisition is not reentrant. \<open>add_sentence_lock\<close> succeeds exactly
  when the table has no entry for the file and sentence, whatever the user names are; when
  an entry exists, the WRITE handler leaves the table as it is and replies
  \<open>ERR_FILE_LOCKED\<close> with the name of the holder as data, also when the requester is
  that holder.
\<close>

theorem C10_lock_not_reentrant:
  "(fst (add_sentence_lock locks f n u now) = 1) =
     (\<not> (\<exists>l \<in> set locks. lk_filename l = f \<and> lk_sentence_num l = n))
   \<and> ((\<exists>l \<in> set locks. lk_filename l = f \<and> lk_sentence_num l = n) \<longrightarrow>
        snd (add_sentence_lock locks f n u now) = locks
        \<and> (\<exists>h \<in> set locks. lk_filename h = f \<and> lk_sentence_num h = n
              \<and> find_sentence_lock locks f n = Some h
              \<and> write_lock_attempt locks f n u now widx =
                  Inl \<lparr>error_code = ERR_FILE_LOCKED, word_index = widx, data = Raw (lk_username h)\<rparr>))"
proof -
  have a: "(fst (add_sentence_lock locks f n u now) = 1) =
     (\<not> (\<exists>l \<in> set locks. lk_filename l = f \<and> lk_sentence_num l = n))"
    by (simp add: add_sentence_lock_def already_locked_iff)
  have b: "snd (add_sentence_lock locks f n u now) = locks
        \<and> (\<exists>h \<in> set locks. lk_filename h = f \<and> lk_sentence_num h = n
              \<and> find_sentence_lock locks f n = Some h
              \<and> write_lock_attempt locks f n u now widx =
                  Inl \<lparr>error_code = ERR_FILE_LOCKED, word_index = widx, data = Raw (lk_username h)\<rparr>)"
    if ex: "\<exists>l \<in> set locks. lk_filename l = f \<and> lk_sentence_num l = n"
  proof -
    from ex have al: "already_locked locks f n" by (simp add: already_locked_iff)
    from already_locked_find [OF al] obtain h where
      h: "find_sentence_lock locks f n = Some h" "h \<in> set locks"
         "lk_filename h = f" "lk_sentence_num h = n" by blast
    show ?thesis using al h
      by (auto simp: add_sentence_lock_def write_lock_attempt_def)
  qed
  from a b show ?thesis by blast
qed

text \<open>
  The holder asks again for sentence 0 of \<open>notes\<close>, which they hold: refused, with their
  own name as data.
\<close>

theorem C10_lock_not_reentrant_witness:
  "fst (add_sentence_lock
          [\<lparr>lk_filename = ''notes'', lk_sentence_num = 0, lk_username = ''alice'', lk_locked_at = 7\<rparr>]
          ''notes'' 0 ''alice'' 9) \<noteq> 1
   \<and> write_lock_attempt
          [\<lparr>lk_filename = ''notes'', lk_sentence_num = 0, lk_username = ''alice'', lk_locked_at = 7\<rparr>]
          ''notes'' 0 ''alice'' 9 0
       = Inl \<lparr>error_code = ERR_FILE_LOCKED, word_index = 0, data = Raw ''alice''\<rparr>"
  using C10_lock_not_reentrant
    [of "[\<lparr>lk_filename = ''notes'', lk_sentence_num = 0, lk_username = ''alice'', lk_locked_at = 7\<rparr>]"
        "''notes''" 0 "''alice''" 9 0]
  by simp

subsection \<open>Sentence parser\<close>

lemma isspace_not_delim: "isspace_c c \<Longrightarrow> \<not> is_delim c"
  by (auto simp: isspace_c_def is_delim_def)

lemma has_non_whitespace_iff: "has_non_whitespace s \<longleftrightarrow> (\<exists>c \<in> set s. \<not> isspace_c c)"
  by (induction s) auto

lemma after_last_no_delim: "\<not> list_ex is_delim s \<Longrightarrow> after_last s = s"
  by (induction s) (auto simp: list_ex_iff)

lemma count_loop_fst: "fst (count_loop s n b) = n + length (filter is_delim s)"
  by (induction s n b rule: count_loop.induct) auto

lemma count_loop_snd:
  "snd (count_loop s n b) =
     (if list_ex is_delim s then (\<exists>c \<in> set (after_last s). \<not> isspace_c c)
      else b \<or> (\<exists>c \<in> set s. \<not> isspace_c c))"
proof (induction s n b rule: count_loop.induct)
  case (1 n b)
  then show ?case by simp
next
  case (2 c cs n b)
  show ?case
  proof (cases "is_delim c")
    case True
    then show ?thesis using 2 by (auto simp: list_ex_iff after_last_no_delim)
  next
    case False
    then show ?thesis using 2 by (auto simp: list_ex_iff)
  qed
qed

lemma filter_delim_dropWhile:
  "filter is_delim (dropWhile isspace_c cs) = filter is_delim cs"
  by (induction cs) (auto simp: isspace_not_delim)

lemma list_ex_delim_dropWhile:
  "list_ex is_delim (dropWhile isspace_c cs) = list_ex is_delim cs"
  by (induction cs) (auto simp: isspace_not_delim)

lemma after_last_dropWhile:
  "list_ex is_delim cs \<Longrightarrow> after_last (dropWhile isspace_c cs) = after_last cs"
  by (induction cs) (auto simp: isspace_not_delim list_ex_delim_dropWhile)

lemma dropWhile_space_nonempty:
  "dropWhile isspace_c cs \<noteq> [] \<longleftrightarrow> (\<exists>c \<in> set cs. \<not> isspace_c c)"
  by (induction cs) auto

lemma extract_loop_length:
  "idx + length (filter is_delim p) \<le> cnt \<Longrightarrow>
   length (extract_loop idx cnt cur p) =
     length (filter is_delim p)
     + (if idx + length (filter is_delim p) < cnt \<and> tail_pending cur p then 1 else 0)"
proof (induction idx cnt cur p rule: extract_loop.induct)
  case (1 idx cnt cur)
  then show ?case by (simp add: tail_pending_def)
next
  case (2 idx cnt cur c cs)
  show ?case
  proof (cases "is_delim c")
    case True
    with 2(3) have lt: "idx < cnt" by simp
    have tp: "tail_pending [] (dropWhile isspace_c cs) = tail_pending cur (c # cs)"
      using True
      by (auto simp: tail_pending_def list_ex_delim_dropWhile after_last_dropWhile
            dropWhile_space_nonempty)
    from 2(1) [OF lt True] 2(3) True lt tp show ?thesis
      by (simp add: filter_delim_dropWhile)
  next
    case False
    show ?thesis
    proof (cases "idx < cnt")
      case True
      have tp: "tail_pending (cur @ [c]) cs = tail_pending cur (c # cs)"
        using False by (auto simp: tail_pending_def)
      from 2(2) [OF True False] 2(3) True False tp show ?thesis by simp
    next
      case nlt: False
      with 2(3) have "length (filter is_delim (c # cs)) = 0" by arith
      with nlt show ?thesis by simp
    qed
  qed
qed

lemma extract_loop_delims:
  "filter is_delim cur = [] \<Longrightarrow> x \<in> set (extract_loop idx cnt cur p) \<Longrightarrow>
   x \<noteq> [] \<and> filter is_delim (butlast x) = []"
proof (induction idx cnt cur p rule: extract_loop.induct)
  case (1 idx cnt cur)
  from 1(2) have x: "x = cur" "cur \<noteq> []" by (auto split: if_splits)
  from 1(1) have "\<forall>c \<in> set cur. \<not> is_delim c" by (simp add: filter_empty_conv)
  then have "\<forall>c \<in> set (butlast cur). \<not> is_delim c" by (meson in_set_butlastD)
  with x show ?case by (simp add: filter_empty_conv)
next
  case (2 idx cnt cur c cs)
  from 2(4) have lt: "idx < cnt" by (auto split: if_splits)
  show ?case
  proof (cases "is_delim c")
    case True
    from 2(4) lt True have "x = cur @ [c] \<or> x \<in> set (extract_loop (Suc idx) cnt [] (dropWhile isspace_c cs))"
      by simp
    then show ?thesis
    proof
      assume "x = cur @ [c]"
      with 2(3) show ?thesis by simp
    next
      assume "x \<in> set (extract_loop (Suc idx) cnt [] (dropWhile isspace_c cs))"
      with 2(1) [OF lt True] show ?thesis by simp
    qed
  next
    case False
    from 2(4) lt False have "x \<in> set (extract_loop idx cnt (cur @ [c]) cs)" by simp
    moreover from 2(3) False have "filter is_delim (cur @ [c]) = []" by simp
    ultimately show ?thesis using 2(2) [OF lt False] by blast
  qed
qed

lemma parse_sentences_count:
  "snd (parse_sentences s) =
     length (filter is_delim s) + (if \<exists>c \<in> set (after_last s). \<not> isspace_c c then 1 else 0)"
proof (cases "has_non_whitespace s")
  case False
  then have a: "\<forall>c \<in> set s. isspace_c c" by (simp add: has_non_whitespace_iff)
  then have "\<not> list_ex is_delim s" by (auto simp: list_ex_iff isspace_not_delim)
  then have "after_last s = s" "filter is_delim s = []"
    by (auto simp: after_last_no_delim list_ex_iff filter_empty_conv)
  with a False show ?thesis by (auto simp: parse_sentences_def)
next
  case True
  then have ne: "s \<noteq> []" by auto
  obtain n b where cl: "count_loop s 0 False = (n, b)" by (cases "count_loop s 0 False")
  from count_loop_fst [of s 0 False] cl have n: "n = length (filter is_delim s)" by simp
  from count_loop_snd [of s 0 False] cl have b:
    "b = (if list_ex is_delim s then (\<exists>c \<in> set (after_last s). \<not> isspace_c c)
          else (\<exists>c \<in> set s. \<not> isspace_c c))" by simp
  have b': "b = (\<exists>c \<in> set (after_last s). \<not> isspace_c c)"
    using b by (auto simp: after_last_no_delim)
  show ?thesis using True ne cl n b' by (auto simp: parse_sentences_def Let_def)
qed

lemma parse_sentences_length: "length (fst (parse_sentences s)) = snd (parse_sentences s)"
proof (cases "has_non_whitespace s \<and> snd (parse_sentences s) \<noteq> 0")
  case False
  then show ?thesis by (auto simp: parse_sentences_def Let_def split: prod.splits)
next
  case True
  then have hn: "has_non_whitespace s" and ne: "s \<noteq> []" by auto
  obtain n b where cl: "count_loop s 0 False = (n, b)" by (cases "count_loop s 0 False")
  from count_loop_fst [of s 0 False] cl have n: "n = length (filter is_delim s)" by simp
  from count_loop_snd [of s 0 False] cl have b:
    "b = (if list_ex is_delim s then (\<exists>c \<in> set (after_last s). \<not> isspace_c c)
          else (\<exists>c \<in> set s. \<not> isspace_c c))" by simp
  have tp: "tail_pending [] s = b"
    using b ne hn by (auto simp: tail_pending_def has_non_whitespace_iff)
  define cnt where "cnt = (if b then Suc n else n)"
  have le: "0 + length (filter is_delim s) \<le> cnt" by (simp add: cnt_def n)
  have "length (extract_loop 0 cnt [] s) = cnt"
    using extract_loop_length [OF le, of "[]"] tp by (auto simp: cnt_def n)
  then show ?thesis using hn ne cl by (auto simp: parse_sentences_def Let_def cnt_def)
qed

lemma parse_sentences_delims:
  "\<forall>x \<in> set (fst (parse_sentences s)). x \<noteq> [] \<and> filter is_delim (butlast x) = []"
proof -
  have "fst (parse_sentences s) = [] \<or> (\<exists>cnt. fst (parse_sentences s) = extract_loop 0 cnt [] s)"
    by (auto simp: parse_sentences_def Let_def split: prod.splits)
  then show ?thesis
  proof
    assume "fst (parse_sentences s) = []"
    then show ?thesis by simp
  next
    assume "\<exists>cnt. fst (parse_sentences s) = extract_loop 0 cnt [] s"
    then obtain cnt where "fst (parse_sentences s) = extract_loop 0 cnt [] s" ..
    then show ?thesis using extract_loop_delims [of "[]" _ 0 cnt s] by simp
  qed
qed

text \<open>
  C1 (as amended). Every \<open>.\<close>, \<open>!\<close> or \<open>?\<close> ends a sentence, also inside a run of
  delimiters: the number of sentences is the number of delimiter characters of the input,
  plus one when text other than whitespace follows the last delimiter; the array returned
  has that many sentences; and a sentence is never empty and holds a delimiter only as its
  last character.
\<close>

theorem C1_every_delimiter_ends_a_sentence:
  "snd (parse_sentences s) =
     length (filter is_delim s) + (if \<exists>c \<in> set (after_last s). \<not> isspace_c c then 1 else 0)
   \<and> length (fst (parse_sentences s)) = snd (parse_sentences s)
   \<and> (\<forall>x \<in> set (fst (parse_sentences s)). x \<noteq> [] \<and> filter is_delim (butlast x) = [])"
  using parse_sentences_count parse_sentences_length parse_sentences_delims by blast

text \<open>\<open>Hi. Bye.\<close> has two delimiters and nothing after the last one: two sentences.\<close>

theorem C1_every_delimiter_ends_a_sentence_witness:
  "snd (parse_sentences ''Hi. Bye.'') = 2
   \<and> length (fst (parse_sentences ''Hi. Bye.'')) = 2
   \<and> fst (parse_sentences ''Hi. Bye.'') = [''Hi.'', ''Bye.'']
   \<and> ''Bye.'' \<in> set (fst (parse_sentences ''Hi. Bye.''))
   \<and> filter is_delim (butlast ''Bye.'') = []"
proof -
  have p: "parse_sentences ''Hi. Bye.'' = ([''Hi.'', ''Bye.''], 2)"
    by (simp add: parse_sentences_def is_delim_def isspace_c_def)
  from C1_every_delimiter_ends_a_sentence [of "''Hi. Bye.''"] p show ?thesis
    by (simp add: is_delim_def)
qed

text \<open>
  The run \<open>...\<close> of \<open>wait... ok.\<close> is three boundaries: the input parses as four
  sentences, not as one.
\<close>

theorem C1_multi_delimiter_counterexample:
  "parse_sentences ''wait... ok.'' = ([''wait.'', ''.'', ''.'', ''ok.''], 4)
   \<and> snd (parse_sentences ''wait... ok.'') \<noteq> 1"
  by (simp add: parse_sentences_def is_delim_def isspace_c_def)

subsection \<open>WRITE sessions\<close>

lemma write_select_sentence_unfold:
  "write_select_sentence content n =
     (let sents = fst (parse_sentences content); S = int (snd (parse_sentences content)) in
      if S = 0 then
        (if n \<noteq> 0 then
           Inl \<lparr>error_code = ERR_SENTENCE_OUT_OF_RANGE, word_index = 0,
                data = Fmt ''File is empty. Only sentence 0 is accessible.'' []\<rparr>
         else Inr [[]])
      else if n < 0 then
        Inl \<lparr>error_code = ERR_SENTENCE_OUT_OF_RANGE, word_index = S - 1,
             data = Fmt ''Invalid sentence number. Must be non-negative.'' []\<rparr>
      else if n = S then
        (if \<not> sentence_has_delimiter (sents ! nat (S - 1)) then
           Inl \<lparr>error_code = ERR_SENTENCE_OUT_OF_RANGE, word_index = S - 1,
                data = Fmt ''Cannot access sentence %d. Previous sentence %d must end with a single delimiter (., !, ?).''
                         [AInt n, AInt (S - 1)]\<rparr>
         else Inr (sents @ [[]]))
      else if n > S then
        Inl \<lparr>error_code = ERR_SENTENCE_OUT_OF_RANGE, word_index = S,
             data = Fmt ''Cannot skip sentences. File has %d sentence(s). Can access 0 to %d.''
                      [AInt S, AInt S]\<rparr>
      else Inr sents)"
proof (cases "content = []")
  case True
  then have "parse_sentences content = ([], 0)" by (simp add: parse_sentences_def)
  with True show ?thesis by (simp add: write_select_sentence_def)
next
  case False
  then show ?thesis
    by (cases "parse_sentences content") (auto simp: write_select_sentence_def Let_def)
qed

text \<open>
  The cases of the check, with \<open>S\<close> the number of sentences the file parses into: an index
  in \<open>[0, S - 1]\<close> is accessible; index \<open>S\<close> is accessible when \<open>S > 0\<close> and sentence
  \<open>S - 1\<close> ends with a single delimiter, and an empty sentence is then appended; for an
  empty file index 0 is accessible (as one empty sentence) and any other index fails with
  word index 0; an index above \<open>S > 0\<close> fails \<open>ERR_SENTENCE_OUT_OF_RANGE\<close> with the
  count \<open>S\<close> in the word index; a negative index, and index \<open>S\<close> when sentence
  \<open>S - 1\<close> has no single delimiter at its end, fail \<open>ERR_SENTENCE_OUT_OF_RANGE\<close> with
  \<open>S - 1\<close> in the word index.
\<close>

lemma write_select_sentence_cases:
  "(0 \<le> n \<and> n < int (snd (parse_sentences content)) \<longrightarrow>
      write_select_sentence content n = Inr (fst (parse_sentences content)))
   \<and> (0 < snd (parse_sentences content) \<and> n = int (snd (parse_sentences content))
        \<and> sentence_has_delimiter (fst (parse_sentences content) ! (snd (parse_sentences content) - 1)) \<longrightarrow>
      write_select_sentence content n = Inr (fst (parse_sentences content) @ [[]]))
   \<and> (snd (parse_sentences content) = 0 \<and> n = 0 \<longrightarrow> write_select_sentence content n = Inr [[]])
   \<and> (snd (parse_sentences content) = 0 \<and> n \<noteq> 0 \<longrightarrow>
      (\<exists>r. write_select_sentence content n = Inl r
           \<and> error_code r = ERR_SENTENCE_OUT_OF_RANGE \<and> word_index r = 0))
   \<and> (0 < snd (parse_sentences content) \<and> int (snd (parse_sentences content)) < n \<longrightarrow>
      (\<exists>r. write_select_sentence content n = Inl r
           \<and> error_code r = ERR_SENTENCE_OUT_OF_RANGE
           \<and> word_index r = int (snd (parse_sentences content))))
   \<and> (0 < snd (parse_sentences content)
        \<and> (n < 0 \<or> n = int (snd (parse_sentences content))
              \<and> \<not> sentence_has_delimiter (fst (parse_sentences content) ! (snd (parse_sentences content) - 1))) \<longrightarrow>
      (\<exists>r. write_select_sentence content n = Inl r
           \<and> error_code r = ERR_SENTENCE_OUT_OF_RANGE
           \<and> word_index r = int (snd (parse_sentences content)) - 1))"
proof -
  have nat1: "nat (int k - 1) = k - 1" for k by simp
  show ?thesis
    unfolding write_select_sentence_unfold Let_def nat1
    by (intro conjI impI) (auto simp: nat1)
qed

text \<open>
  C5. The file \<open>Hi. Bye\<close> parses into two sentences, the last without a delimiter (the
  handler reads it as \<open>Hi. Bye \<close>, appending a space to the line). A WRITE request for
  sentence 2, and one for sentence -1, are refused with \<open>ERR_SENTENCE_OUT_OF_RANGE\<close> and
  word index 1, one less than the sentence count. A request for sentence 5 on the file
  \<open>Hi. Bye.\<close> takes the other refusing branch, which returns the count 2.
\<close>

theorem C5_word_index_below_sentence_count:
  "snd (parse_sentences ''Hi. Bye '') = 2
   \<and> write_select_sentence ''Hi. Bye '' 2 =
       Inl \<lparr>error_code = ERR_SENTENCE_OUT_OF_RANGE, word_index = 1,
            data = Fmt ''Cannot access sentence %d. Previous sentence %d must end with a single delimiter (., !, ?).''
                     [AInt 2, AInt 1]\<rparr>
   \<and> write_select_sentence ''Hi. Bye '' (- 1) =
       Inl \<lparr>error_code = ERR_SENTENCE_OUT_OF_RANGE, word_index = 1,
            data = Fmt ''Invalid sentence number. Must be non-negative.'' []\<rparr>
   \<and> snd (parse_sentences ''Hi. Bye. '') = 2
   \<and> write_select_sentence ''Hi. Bye. '' 5 =
       Inl \<lparr>error_code = ERR_SENTENCE_OUT_OF_RANGE, word_index = 2,
            data = Fmt ''Cannot skip sentences. File has %d sentence(s). Can access 0 to %d.''
                     [AInt 2, AInt 2]\<rparr>"
proof -
  have p: "parse_sentences ''Hi. Bye '' = ([''Hi.'', ''Bye ''], 2)"
    and q: "parse_sentences ''Hi. Bye. '' = ([''Hi.'', ''Bye.''], 2)"
    by (simp_all add: parse_sentences_def is_delim_def isspace_c_def)
  have d: "\<not> sentence_has_delimiter ''Bye ''"
    by (simp add: sentence_has_delimiter_def is_delim_def isspace_c_def eval_nat_numeral)
  show ?thesis by (simp add: write_select_sentence_def p q d)
qed

lemma shift_right_length [simp]: "length (shift_right ws pos n k) = length ws"
  by (induction k arbitrary: ws) auto






lemma shift_left_length [simp]: "length (shift_left ws i n) = length ws"
  by (induction ws i n rule: shift_left.induct) (subst shift_left.simps, simp)



lemma strtok_loop_concat:
  "concat (strtok_loop cur s) = cur @ filter (\<lambda>c. \<not> is_tok_sep c) s"
  by (induction s arbitrary: cur) auto

lemma strtok_loop_tokens:
  "\<forall>c \<in> set cur. \<not> is_tok_sep c \<Longrightarrow> t \<in> set (strtok_loop cur s) \<Longrightarrow>
   t \<noteq> [] \<and> (\<forall>c \<in> set t. \<not> is_tok_sep c)"
proof (induction s arbitrary: cur)
  case Nil
  then show ?case by (auto split: if_splits)
next
  case (Cons a s)
  show ?case
  proof (cases "is_tok_sep a")
    case True
    then have "t = cur \<and> cur \<noteq> [] \<or> t \<in> set (strtok_loop [] s)"
      using Cons.prems(2) by (auto split: if_splits)
    then show ?thesis using Cons.IH [of "[]"] Cons.prems(1) by auto
  next
    case False
    then have "t \<in> set (strtok_loop (cur @ [a]) s)" using Cons.prems(2) by simp
    moreover have "\<forall>c \<in> set (cur @ [a]). \<not> is_tok_sep c" using Cons.prems(1) False by auto
    ultimately show ?thesis using Cons.IH [of "cur @ [a]"] by blast
  qed
qed



















subsection \<open>Undo\<close>

lemma update_undo_state_get:
  "update_undo_state us f v = Some us' \<Longrightarrow>
   \<exists>u. get_undo_state us' f = Some u \<and> us_undo_performed u = v"
  by (induction us arbitrary: us') (auto split: if_splits)

lemma undo_flag_after_set:
  "\<exists>u. get_undo_state (set_undo_state us f v) f = Some u \<and> us_undo_performed u = v"
  by (cases "update_undo_state us f v") (auto simp: set_undo_state_def dest: update_undo_state_get)

lemma handle_undo_success:
  assumes "error_code (fst (handle_undo s f w)) = RESP_SUCCESS"
  shows "\<exists>live bak. ns_storage s f = Some live \<and> ns_backups s (f @ ''.backup'') = Some bak
     \<and> snd (handle_undo s f w) =
          s\<lparr>ns_storage := (ns_storage s)(f \<mapsto> bak),
            ns_backups := ((ns_backups s)(f @ ''.tmp_backup'' \<mapsto> live, f @ ''.backup'' \<mapsto> live))
                            (f @ ''.tmp_backup'' := None),
            ns_undo_states := set_undo_state (ns_undo_states s) f 1\<rparr>"
  using assms
  by (auto simp: handle_undo_def Let_def resp_codes split: option.splits if_splits)

text \<open>
  storage_server.c: after a successful UNDO the flag of the file is 1, and an UNDO that
  follows is refused with \<open>ERR_PERMISSION_DENIED\<close> and changes nothing.
\<close>

lemma handle_undo_twice:
  assumes "error_code (fst (handle_undo s f w)) = RESP_SUCCESS"
  shows "(\<exists>u. get_undo_state (ns_undo_states (snd (handle_undo s f w))) f = Some u
               \<and> us_undo_performed u = 1)
     \<and> handle_undo (snd (handle_undo s f w)) f w' =
         (\<lparr>error_code = ERR_PERMISSION_DENIED, word_index = w',
           data = Fmt ''Cannot perform consecutive UNDO. Please modify the file first before undoing again.'' []\<rparr>,
          snd (handle_undo s f w))"
proof -
  from handle_undo_success [OF assms] obtain live bak where
    s': "snd (handle_undo s f w) =
          s\<lparr>ns_storage := (ns_storage s)(f \<mapsto> bak),
            ns_backups := ((ns_backups s)(f @ ''.tmp_backup'' \<mapsto> live, f @ ''.backup'' \<mapsto> live))
                            (f @ ''.tmp_backup'' := None),
            ns_undo_states := set_undo_state (ns_undo_states s) f 1\<rparr>"
    by blast
  from undo_flag_after_set [of "ns_undo_states s" f 1] obtain u where
    u: "get_undo_state (set_undo_state (ns_undo_states s) f 1) f = Some u" "us_undo_performed u = 1"
    by blast
  show ?thesis
    unfolding s' using u by (simp add: handle_undo_def)
qed

text \<open>
  storage_server.c: a commit clears the flag, and the UNDO that follows succeeds and
  brings back the content the file had before the commit.
\<close>

lemma handle_etirw_then_undo:
  assumes "ns_storage s f = Some orig"
  shows "error_code (fst (handle_etirw s f sn usr st w)) = RESP_SUCCESS
     \<and> (\<exists>u. get_undo_state (ns_undo_states (snd (handle_etirw s f sn usr st w))) f = Some u
               \<and> us_undo_performed u = 0)
     \<and> error_code (fst (handle_undo (snd (handle_etirw s f sn usr st w)) f w')) = RESP_SUCCESS
     \<and> ns_storage (snd (handle_undo (snd (handle_etirw s f sn usr st w)) f w')) f = Some orig"
proof -
  from undo_flag_after_set [of "ns_undo_states s" f 0] obtain u where
    u: "get_undo_state (set_undo_state (ns_undo_states s) f 0) f = Some u" "us_undo_performed u = 0"
    by blast
  show ?thesis using assms u
    by (simp add: handle_etirw_def handle_undo_def Let_def)
qed

text \<open>
  storage_server_modular.c refuses the second UNDO as well, with another code, and allows
  one UNDO again after a commit.
\<close>

lemma handle_undo_modular_twice:
  assumes "error_code (fst (handle_undo_modular s f w)) = RESP_SUCCESS"
  shows "handle_undo_modular (snd (handle_undo_modular s f w)) f w' =
         (\<lparr>error_code = ERR_INVALID_REQUEST, word_index = w',
           data = Fmt ''Cannot undo twice consecutively'' []\<rparr>,
          snd (handle_undo_modular s f w))"
proof -
  from undo_flag_after_set [of "ns_undo_states s" f 1] obtain u where
    u: "get_undo_state (set_undo_state (ns_undo_states s) f 1) f = Some u" "us_undo_performed u = 1"
    by blast
  have "snd (handle_undo_modular s f w) =
          s\<lparr>ns_storage := (ns_storage s)(f \<mapsto> the (ns_backups s (f @ ''.backup''))),
            ns_undo_states := set_undo_state (ns_undo_states s) f 1\<rparr>"
    using assms by (auto simp: handle_undo_modular_def resp_codes split: option.splits if_splits)
  then show ?thesis using u by (simp add: handle_undo_modular_def)
qed

lemma handle_etirw_modular_then_undo:
  "error_code (fst (handle_etirw_modular s f sn usr st w)) = RESP_SUCCESS
   \<and> (\<exists>u. get_undo_state (ns_undo_states (snd (handle_etirw_modular s f sn usr st w))) f = Some u
             \<and> us_undo_performed u = 0)
   \<and> error_code (fst (handle_undo_modular (snd (handle_etirw_modular s f sn usr st w)) f w')) = RESP_SUCCESS"
proof -
  from undo_flag_after_set [of "ns_undo_states s" f 0] obtain u where
    u: "get_undo_state (set_undo_state (ns_undo_states s) f 0) f = Some u" "us_undo_performed u = 0"
    by blast
  then show ?thesis
    by (simp add: handle_etirw_modular_def handle_undo_modular_def Let_def)
qed

text \<open>
  C4. The file \<open>doc\<close> has a sidecar and no undo entry. In both variants the first UNDO
  succeeds and the second is refused; storage_server_modular.c refuses it with
  \<open>ERR_INVALID_REQUEST\<close>, storage_server.c with \<open>ERR_PERMISSION_DENIED\<close>.
\<close>

theorem C4_modular_second_undo_code:
  "error_code (fst (handle_undo_modular
      \<lparr>ns_storage = [''doc'' \<mapsto> ''new text''], ns_backups = [''doc.backup'' \<mapsto> ''old text''],
        ns_undo_states = [], ns_locks = []\<rparr> ''doc'' 0)) = RESP_SUCCESS
   \<and> error_code (fst (handle_undo_modular (snd (handle_undo_modular
      \<lparr>ns_storage = [''doc'' \<mapsto> ''new text''], ns_backups = [''doc.backup'' \<mapsto> ''old text''],
        ns_undo_states = [], ns_locks = []\<rparr> ''doc'' 0)) ''doc'' 0)) = ERR_INVALID_REQUEST
   \<and> ERR_INVALID_REQUEST \<noteq> ERR_PERMISSION_DENIED
   \<and> error_code (fst (handle_undo (snd (handle_undo
      \<lparr>ns_storage = [''doc'' \<mapsto> ''new text''], ns_backups = [''doc.backup'' \<mapsto> ''old text''],
        ns_undo_states = [], ns_locks = []\<rparr> ''doc'' 0)) ''doc'' 0)) = ERR_PERMISSION_DENIED"
  by (simp add: handle_undo_modular_def handle_undo_def set_undo_state_def Let_def resp_codes)

subsection \<open>Access control\<close>

lemma update_access_set:
  "update_access acl u r w = Some acl' \<Longrightarrow> a \<in> set acl' \<Longrightarrow>
   a \<in> set acl \<or> (acl_username a = u \<and> can_read a = r \<and> can_write a = w)"
  by (induction acl arbitrary: acl') (auto split: if_splits)

lemma update_access_names:
  "update_access acl u r w = Some acl' \<Longrightarrow> map acl_username acl' = map acl_username acl"
  by (induction acl arbitrary: acl') (auto split: if_splits)

lemma update_access_None:
  "update_access acl u r w = None \<longleftrightarrow> u \<notin> set (map acl_username acl)"
  by (induction acl) auto

lemma add_access_names:
  "set (map acl_username (fe_acl (snd (add_access e u r w)))) = insert u (set (map acl_username (fe_acl e)))
   \<and> fe_owner (snd (add_access e u r w)) = fe_owner e"
proof (cases "update_access (fe_acl e) u r w")
  case None
  then show ?thesis by (simp add: add_access_def)
next
  case (Some acl')
  then have "u \<in> set (map acl_username (fe_acl e))"
    using update_access_None [of "fe_acl e" u r w] by auto
  with Some update_access_names [OF Some] show ?thesis
    by (auto simp: add_access_def)
qed

lemma add_access_owner_not_in_acl:
  "owner_not_in_acl e \<Longrightarrow> u \<noteq> fe_owner e \<Longrightarrow> owner_not_in_acl (snd (add_access e u r w))"
  using add_access_names [of e u r w] by (auto simp: owner_not_in_acl_def)

lemma remove_acl_set: "remove_acl acl u = Some acl' \<Longrightarrow> set acl' \<subseteq> set acl"
  by (induction acl arbitrary: acl') (auto split: if_splits)

lemma add_access_write_implies_read:
  assumes "write_implies_read e" "w = 1 \<longrightarrow> r = 1"
  shows "write_implies_read (snd (add_access e u r w))"
proof (cases "update_access (fe_acl e) u r w")
  case None
  with assms show ?thesis by (simp add: add_access_def write_implies_read_def)
next
  case (Some acl')
  from assms(1) have "\<forall>a \<in> set (fe_acl e). can_write a = 1 \<longrightarrow> can_read a = 1"
    by (simp add: write_implies_read_def list_all_iff)
  with update_access_set [OF Some] assms(2)
  have "\<forall>a \<in> set acl'. can_write a = 1 \<longrightarrow> can_read a = 1" by blast
  with Some show ?thesis by (simp add: add_access_def write_implies_read_def list_all_iff)
qed

lemma remove_access_write_implies_read:
  assumes "write_implies_read e"
  shows "write_implies_read (snd (remove_access e u))"
proof (cases "remove_acl (fe_acl e) u")
  case None
  with assms show ?thesis by (simp add: remove_access_def)
next
  case (Some acl')
  from remove_acl_set [OF Some] assms Some show ?thesis
    by (auto simp: remove_access_def write_implies_read_def list_all_iff)
qed

lemma handle_add_access_cases:
  assumes "snd (handle_add_access users (Some e) fn client flags payload widx) = Some e'"
  shows "e' = e \<or> e' = snd (add_access e (scan_word payload)
           (if and flags 2 \<noteq> 0 then 1 else if and flags 1 \<noteq> 0 then 1 else 0)
           (if and flags 2 \<noteq> 0 then 1 else 0))"
  using assms
  by (auto simp: handle_add_access_def Let_def split: if_splits prod.splits)

text \<open>ADDACCESS and REMACCESS keep ``write implies read'' on the record they touch.\<close>

lemma handle_add_access_write_implies_read:
  assumes "write_implies_read e"
    and "snd (handle_add_access users (Some e) fn client flags payload widx) = Some e'"
  shows "write_implies_read e'"
proof -
  have "write_implies_read (snd (add_access e (scan_word payload)
           (if and flags 2 \<noteq> 0 then 1 else if and flags 1 \<noteq> 0 then 1 else 0)
           (if and flags 2 \<noteq> 0 then 1 else 0)))"
    by (rule add_access_write_implies_read [OF assms(1)]) simp
  with handle_add_access_cases [OF assms(2)] assms(1) show ?thesis by auto
qed

lemma handle_rem_access_write_implies_read:
  assumes "write_implies_read e"
    and "snd (handle_rem_access (Some e) fn client payload widx) = Some e'"
  shows "write_implies_read e'"
proof -
  have "e' = e \<or> e' = snd (remove_access e (scan_word payload))"
    using assms(2)
    by (auto simp: handle_rem_access_def Let_def split: if_splits prod.splits)
  with assms(1) remove_access_write_implies_read [OF assms(1)] show ?thesis by auto
qed

text \<open>
  C2. The owner approves a pending write-only request (access type 2): the ACL entry
  created has \<open>can_write = 1\<close> and \<open>can_read = 0\<close>, so that the requester may write the
  file and may not read it.
\<close>

theorem C2_approved_write_request_cannot_read:
  "handle_respond_request
     (Some \<lparr>fe_name = ''report'', fe_owner = ''alice'', fe_storage_server_id = ''SS1'',
            fe_last_accessed = 0, fe_acl = [],
            fe_access_requests = [\<lparr>request_id = 1, requester = ''bob'', access_type = 2,
                                    requested_at = 100, status = 0\<rparr>]\<rparr>)
     ''alice'' 1 1 0
   = (\<lparr>error_code = RESP_SUCCESS, word_index = 0, data = Fmt ''Request %s'' [AStr ''approved'']\<rparr>,
      Some \<lparr>fe_name = ''report'', fe_owner = ''alice'', fe_storage_server_id = ''SS1'',
            fe_last_accessed = 0,
            fe_acl = [\<lparr>acl_username = ''bob'', can_read = 0, can_write = 1\<rparr>],
            fe_access_requests = [\<lparr>request_id = 1, requester = ''bob'', access_type = 2,
                                    requested_at = 100, status = 1\<rparr>]\<rparr>)
   \<and> check_permission
        \<lparr>fe_name = ''report'', fe_owner = ''alice'', fe_storage_server_id = ''SS1'',
            fe_last_accessed = 0,
            fe_acl = [\<lparr>acl_username = ''bob'', can_read = 0, can_write = 1\<rparr>],
            fe_access_requests = [\<lparr>request_id = 1, requester = ''bob'', access_type = 2,
                                    requested_at = 100, status = 1\<rparr>]\<rparr> ''bob'' 0 = 0
   \<and> check_permission
        \<lparr>fe_name = ''report'', fe_owner = ''alice'', fe_storage_server_id = ''SS1'',
            fe_last_accessed = 0,
            fe_acl = [\<lparr>acl_username = ''bob'', can_read = 0, can_write = 1\<rparr>],
            fe_access_requests = [\<lparr>request_id = 1, requester = ''bob'', access_type = 2,
                                    requested_at = 100, status = 1\<rparr>]\<rparr> ''bob'' 1 = 1"
  by (simp add: handle_respond_request_def respond_to_request_def add_access_def
        check_permission_def Let_def)

text \<open>The owner is kept out of the ACL by REMACCESS, by requests and by their approval.\<close>

lemma handle_rem_access_owner_rejected:
  "fe_owner e = client \<Longrightarrow> scan_word payload = client \<Longrightarrow>
   handle_rem_access (Some e) fn client payload widx =
     (\<lparr>error_code = ERR_INVALID_REQUEST, word_index = widx,
       data = Fmt ''Error: Owner cannot remove their own access'' []\<rparr>, Some e)"
  by (simp add: handle_rem_access_def)

lemma handle_rem_access_owner_not_in_acl:
  assumes "owner_not_in_acl e"
    and "snd (handle_rem_access (Some e) fn client payload widx) = Some e'"
  shows "owner_not_in_acl e'"
proof -
  have "e' = e \<or> (\<exists>acl'. remove_acl (fe_acl e) (scan_word payload) = Some acl' \<and> e' = e\<lparr>fe_acl := acl'\<rparr>)"
    using assms(2)
    by (auto simp: handle_rem_access_def remove_access_def Let_def split: if_splits option.splits)
  then show ?thesis using assms(1) remove_acl_set by (fastforce simp: owner_not_in_acl_def)
qed

lemma handle_add_access_owner_not_in_acl:
  assumes "owner_not_in_acl e" "scan_word payload \<noteq> fe_owner e"
    and "snd (handle_add_access users (Some e) fn client flags payload widx) = Some e'"
  shows "owner_not_in_acl e'"
proof -
  have "owner_not_in_acl (snd (add_access e (scan_word payload) r w))" for r w
    using assms(1,2) by (simp add: add_access_owner_not_in_acl)
  with handle_add_access_cases [OF assms(3)] assms(1) show ?thesis by auto
qed

lemma handle_request_access_not_owner:
  assumes "\<forall>q \<in> set (fe_access_requests e). requester q \<noteq> fe_owner e"
    and "fst (snd (handle_request_access (Some e) client flags next_id now widx)) = Some e'"
  shows "(\<forall>q \<in> set (fe_access_requests e'). requester q \<noteq> fe_owner e') \<and> fe_acl e' = fe_acl e"
  using assms
  by (auto simp: handle_request_access_def add_access_request_def split: if_splits)

lemma mark_request_found:
  "mark_request qs rid approve = Some (qs', q) \<Longrightarrow> q \<in> set qs"
  by (induction qs arbitrary: qs') (auto split: if_splits)

lemma respond_to_request_owner_not_in_acl:
  assumes "owner_not_in_acl e" "\<forall>q \<in> set (fe_access_requests e). requester q \<noteq> fe_owner e"
  shows "owner_not_in_acl (snd (respond_to_request e rid approve))"
proof (cases "mark_request (fe_access_requests e) rid approve")
  case None
  with assms show ?thesis by (simp add: respond_to_request_def)
next
  case (Some p)
  obtain qs' q where p: "p = (qs', q)" by (cases p)
  with Some mark_request_found have "q \<in> set (fe_access_requests e)" by blast
  with assms(2) have ne: "requester q \<noteq> fe_owner e" by blast
  have o: "owner_not_in_acl (e\<lparr>fe_access_requests := qs'\<rparr>)"
    using assms(1) by (simp add: owner_not_in_acl_def)
  have "owner_not_in_acl (snd (add_access (e\<lparr>fe_access_requests := qs'\<rparr>) (requester q) r w))" for r w
    using o ne by (simp add: add_access_owner_not_in_acl)
  with Some p o show ?thesis
    by (simp add: respond_to_request_def Let_def)
qed

text \<open>
  C3. The owner \<open>alice\<close> of \<open>report\<close> sends ADDACCESS with herself as target: the handler
  checks that the target is a registered user and nothing else, and the ACL gets an entry
  for the owner. REMACCESS with the owner as target is refused.
\<close>

theorem C3_add_access_for_owner:
  "handle_add_access [''bob'', ''alice'']
     (Some \<lparr>fe_name = ''report'', fe_owner = ''alice'', fe_storage_server_id = ''SS1'',
            fe_last_accessed = 0, fe_acl = [], fe_access_requests = []\<rparr>)
     ''report'' ''alice'' 1 ''alice'' 0
   = (\<lparr>error_code = RESP_SUCCESS, word_index = 0,
        data = Fmt (''Granted %s access to '%s' for user '%s'' @ [CHR 0x27])
                 [AStr ''read'', AStr ''report'', AStr ''alice'']\<rparr>,
      Some \<lparr>fe_name = ''report'', fe_owner = ''alice'', fe_storage_server_id = ''SS1'',
            fe_last_accessed = 0,
            fe_acl = [\<lparr>acl_username = ''alice'', can_read = 1, can_write = 0\<rparr>],
            fe_access_requests = []\<rparr>)
   \<and> error_code (fst (handle_rem_access
        (Some \<lparr>fe_name = ''report'', fe_owner = ''alice'', fe_storage_server_id = ''SS1'',
            fe_last_accessed = 0, fe_acl = [], fe_access_requests = []\<rparr>)
        ''report'' ''alice'' ''alice'' 0)) = ERR_INVALID_REQUEST"
  by (simp add: handle_add_access_def handle_rem_access_def add_access_def scan_word_def
        isspace_c_def Let_def)

subsection \<open>User sessions\<close>

lemma find_active_session_None:
  "find_active_session ss u = None \<longleftrightarrow> u \<notin> set (map as_username ss)"
  by (induction ss) auto

lemma find_active_session_Some:
  "find_active_session ss u = Some x \<Longrightarrow> x \<in> set ss \<and> as_username x = u"
  by (induction ss) (auto split: if_splits)

lemma session_exists_iff: "session_exists ss u \<longleftrightarrow> u \<in> set (map as_username ss)"
  by (induction ss) auto

lemma remove_active_session_set:
  "distinct (map as_username ss) \<Longrightarrow>
   set (remove_active_session ss u) = {s \<in> set ss. as_username s \<noteq> u}"
  by (induction ss) (auto simp: image_iff)

lemma remove_active_session_distinct:
  "distinct (map as_username ss) \<Longrightarrow> distinct (map as_username (remove_active_session ss u))"
proof (induction ss)
  case Nil
  then show ?case by simp
next
  case (Cons x xs)
  then have d: "distinct (map as_username xs)" and nx: "as_username x \<notin> set (map as_username xs)"
    by simp_all
  from remove_active_session_set [OF d, of u] nx
  have "as_username x \<notin> set (map as_username (remove_active_session xs u))" by auto
  with Cons d show ?case by simp
qed

lemma handle_register_client_rejects:
  "find_active_session ss u = Some existing \<Longrightarrow>
   handle_register_client (ss, users) u sock ip now widx =
     (\<lparr>error_code = ERR_FILE_LOCKED, word_index = widx,
       data = Fmt ''User '%s' is already logged in from %s since %s''
                [AStr u, AStr (as_client_ip existing), ATime (as_login_time existing)]\<rparr>,
      (ss, users), False)"
  by (simp add: handle_register_client_def)

lemma handle_register_client_accepts:
  "find_active_session ss u = None \<Longrightarrow>
   handle_register_client (ss, users) u sock ip now widx =
     (\<lparr>error_code = RESP_SUCCESS, word_index = widx,
       data = Fmt ''Welcome back, %s! Your data is preserved.'' [AStr u]\<rparr>,
      (\<lparr>as_username = u, as_client_socket = sock, as_client_ip = ip, as_login_time = now\<rparr> # ss,
       register_user users u), True)"
proof -
  assume n: "find_active_session ss u = None"
  then have "\<not> session_exists ss u"
    by (simp add: session_exists_iff find_active_session_None)
  with n show ?thesis
    by (simp add: handle_register_client_def add_active_session_def Let_def)
qed

lemma handle_register_client_distinct:
  "distinct (map as_username ss) \<Longrightarrow>
   distinct (map as_username (fst (fst (snd (handle_register_client (ss, users) u sock ip now widx)))))"
proof (cases "find_active_session ss u")
  case None
  assume "distinct (map as_username ss)"
  with None show ?thesis
    by (simp add: handle_register_client_accepts find_active_session_None)
next
  case (Some existing)
  assume "distinct (map as_username ss)"
  with Some show ?thesis by (simp add: handle_register_client_rejects)
qed

lemma session_step_distinct:
  "distinct (map as_username (fst st)) \<Longrightarrow> distinct (map as_username (fst (session_step st ev)))"
proof (cases st)
  case (Pair ss users)
  assume d: "distinct (map as_username (fst st))"
  show ?thesis
  proof (cases ev)
    case (RegisterClient u sock ip now)
    with Pair d handle_register_client_distinct [of ss users u sock ip now 0] show ?thesis by simp
  next
    case (SessionEnd u)
    with Pair d show ?thesis by (simp add: remove_active_session_distinct)
  qed
qed

lemma foldl_session_step_distinct:
  "distinct (map as_username (fst st)) \<Longrightarrow>
   distinct (map as_username (fst (foldl session_step st evs)))"
  by (induction evs arbitrary: st) (simp_all add: session_step_distinct)

lemma run_sessions_distinct: "distinct (map as_username (fst (run_sessions evs)))"
  unfolding run_sessions_def by (rule foldl_session_step_distinct) simp

text \<open>
  C9. After any sequence of registrations and session ends, starting with no session, the
  session list has at most one entry for a user name. A registration under a name that
  has a session is answered \<open>ERR_FILE_LOCKED\<close> with the address and login time of that
  session, the thread returns, and the list is as before; a registration under a name
  without a session succeeds and puts one entry at the head, the only one of the name; the
  end of a session removes the entry of the name.
\<close>

theorem C9_single_session:
  "distinct (map as_username (fst (run_sessions evs)))
   \<and> (\<forall>existing. find_active_session ss u = Some existing \<longrightarrow>
         handle_register_client (ss, users) u sock ip now widx =
           (\<lparr>error_code = ERR_FILE_LOCKED, word_index = widx,
             data = Fmt ''User '%s' is already logged in from %s since %s''
                      [AStr u, AStr (as_client_ip existing), ATime (as_login_time existing)]\<rparr>,
            (ss, users), False))
   \<and> (find_active_session ss u = None \<longrightarrow>
         error_code (fst (handle_register_client (ss, users) u sock ip now widx)) = RESP_SUCCESS
         \<and> fst (fst (snd (handle_register_client (ss, users) u sock ip now widx)))
             = \<lparr>as_username = u, as_client_socket = sock, as_client_ip = ip, as_login_time = now\<rparr> # ss
         \<and> length (filter (\<lambda>s. as_username s = u)
               (fst (fst (snd (handle_register_client (ss, users) u sock ip now widx))))) = 1)
   \<and> (distinct (map as_username ss) \<longrightarrow>
         distinct (map as_username (fst (fst (snd (handle_register_client (ss, users) u sock ip now widx)))))
         \<and> distinct (map as_username (remove_active_session ss u))
         \<and> set (remove_active_session ss u) = {s \<in> set ss. as_username s \<noteq> u}
         \<and> find_active_session (remove_active_session ss u) u = None)"
proof (intro conjI allI impI)
  show "distinct (map as_username (fst (run_sessions evs)))" by (rule run_sessions_distinct)
next
  fix existing assume "find_active_session ss u = Some existing"
  then show "handle_register_client (ss, users) u sock ip now widx =
           (\<lparr>error_code = ERR_FILE_LOCKED, word_index = widx,
             data = Fmt ''User '%s' is already logged in from %s since %s''
                      [AStr u, AStr (as_client_ip existing), ATime (as_login_time existing)]\<rparr>,
            (ss, users), False)"
    by (rule handle_register_client_rejects)
next
  assume n: "find_active_session ss u = None"
  show "error_code (fst (handle_register_client (ss, users) u sock ip now widx)) = RESP_SUCCESS"
    by (simp add: handle_register_client_accepts [OF n])
  show "fst (fst (snd (handle_register_client (ss, users) u sock ip now widx)))
             = \<lparr>as_username = u, as_client_socket = sock, as_client_ip = ip, as_login_time = now\<rparr> # ss"
    by (simp add: handle_register_client_accepts [OF n])
  from n have "\<forall>s \<in> set ss. as_username s \<noteq> u" by (auto simp: find_active_session_None)
  then have "filter (\<lambda>s. as_username s = u) ss = []" by (simp add: filter_empty_conv)
  then show "length (filter (\<lambda>s. as_username s = u)
               (fst (fst (snd (handle_register_client (ss, users) u sock ip now widx))))) = 1"
    by (simp add: handle_register_client_accepts [OF n])
next
  assume d: "distinct (map as_username ss)"
  show "distinct (map as_username (fst (fst (snd (handle_register_client (ss, users) u sock ip now widx)))))"
    by (rule handle_register_client_distinct [OF d])
  show "distinct (map as_username (remove_active_session ss u))"
    by (rule remove_active_session_distinct [OF d])
  show s: "set (remove_active_session ss u) = {s \<in> set ss. as_username s \<noteq> u}"
    by (rule remove_active_session_set [OF d])
  show "find_active_session (remove_active_session ss u) u = None"
    using s by (auto simp: find_active_session_None)
qed

text \<open>
  \<open>alice\<close> logs in and tries to log in a second time; \<open>bob\<close> logs in; \<open>alice\<close>
  leaves.
\<close>

theorem C9_single_session_witness:
  "fst (run_sessions [RegisterClient ''alice'' 4 ''10.0.0.7'' 10, RegisterClient ''alice'' 5 ''10.0.0.8'' 20])
     = [\<lparr>as_username = ''alice'', as_client_socket = 4, as_client_ip = ''10.0.0.7'', as_login_time = 10\<rparr>]
   \<and> handle_register_client
        ([\<lparr>as_username = ''alice'', as_client_socket = 4, as_client_ip = ''10.0.0.7'', as_login_time = 10\<rparr>],
         [''alice'']) ''alice'' 5 ''10.0.0.8'' 20 0
      = (\<lparr>error_code = ERR_FILE_LOCKED, word_index = 0,
           data = Fmt ''User '%s' is already logged in from %s since %s''
                    [AStr ''alice'', AStr ''10.0.0.7'', ATime 10]\<rparr>,
         ([\<lparr>as_username = ''alice'', as_client_socket = 4, as_client_ip = ''10.0.0.7'', as_login_time = 10\<rparr>],
          [''alice'']), False)
   \<and> fst (fst (snd (handle_register_client
        ([\<lparr>as_username = ''alice'', as_client_socket = 4, as_client_ip = ''10.0.0.7'', as_login_time = 10\<rparr>],
         [''alice'']) ''bob'' 5 ''10.0.0.8'' 20 0)))
      = [\<lparr>as_username = ''bob'', as_client_socket = 5, as_client_ip = ''10.0.0.8'', as_login_time = 20\<rparr>,
         \<lparr>as_username = ''alice'', as_client_socket = 4, as_client_ip = ''10.0.0.7'', as_login_time = 10\<rparr>]
   \<and> remove_active_session
        [\<lparr>as_username = ''alice'', as_client_socket = 4, as_client_ip = ''10.0.0.7'', as_login_time = 10\<rparr>]
        ''alice'' = []"
proof -
  let ?a = "\<lparr>as_username = ''alice'', as_client_socket = 4, as_client_ip = ''10.0.0.7'', as_login_time = 10\<rparr>"
  have r: "fst (run_sessions [RegisterClient ''alice'' 4 ''10.0.0.7'' 10, RegisterClient ''alice'' 5 ''10.0.0.8'' 20]) = [?a]"
    by (simp add: run_sessions_def handle_register_client_def add_active_session_def
          register_user_def Let_def)
  show ?thesis
    using C9_single_session [where ss = "[?a]" and u = "''alice''" and users = "[''alice'']"
        and sock = 5 and ip = "''10.0.0.8''" and now = 20 and widx = 0
        and evs = "[RegisterClient ''alice'' 4 ''10.0.0.7'' 10, RegisterClient ''alice'' 5 ''10.0.0.8'' 20]"]
      C9_single_session [where ss = "[?a]" and u = "''bob''" and users = "[''alice'']"
        and sock = 5 and ip = "''10.0.0.8''" and now = 20 and widx = 0 and evs = "[]"]
    by (simp add: r)
qed

subsection \<open>Storage server registry and CREATE\<close>

lemma get_available_ss_filter:
  "get_available_ss servers =
     (case filter (\<lambda>s. ss_is_active s \<noteq> 0) servers of [] \<Rightarrow> None | s # rest \<Rightarrow> Some s)"
  by (induction servers) auto

lemma create_select_ss_default:
  "create_select_ss servers [] widx =
     (case filter (\<lambda>s. ss_is_active s \<noteq> 0) servers of
        [] \<Rightarrow> Inl \<lparr>error_code = ERR_SS_UNAVAILABLE, word_index = widx,
                    data = Fmt ''Error: No storage server available'' []\<rparr>
      | s # rest \<Rightarrow> Inr s)"
  by (simp add: create_select_ss_def get_available_ss_filter split: list.splits)

lemma handle_register_ss_new:
  "find_ss_by_id (co_servers co) (reg_ss_id reg) = None \<Longrightarrow>
   co_servers (handle_register_ss co reg sock now) =
     (new_storage_server reg now)\<lparr>ss_socket := sock\<rparr> # co_servers co"
  by (simp add: handle_register_ss_def register_storage_server_def new_storage_server_def Let_def)

lemma handle_register_ss_ns_servers:
  "co_servers (handle_register_ss_ns co reg sock now) =
     (new_storage_server reg now)\<lparr>ss_socket := sock\<rparr> # co_servers co"
  by (simp add: handle_register_ss_ns_def register_storage_server_ns_def new_storage_server_def Let_def)

lemma new_storage_server_active: "ss_is_active ((new_storage_server reg now)\<lparr>ss_socket := sock\<rparr>) = 1"
  by (simp add: new_storage_server_def)

lemma handle_create_assigns:
  assumes "lookup_file (co_files co) filename = None"
    and "create_select_ss (co_servers co) payload widx = Inr s"
    and "0 \<le> ss_socket s" and "error_code ss_response = RESP_SUCCESS"
  shows "lookup_file (co_files (snd (handle_create co filename client payload ss_response now widx))) filename
         = Some \<lparr>fe_name = filename, fe_owner = client, fe_storage_server_id = ss_id s,
                  fe_last_accessed = now, fe_acl = [], fe_access_requests = []\<rparr>"
  using assms by (simp add: handle_create_def add_file_def)

text \<open>
  C8 (as amended). A CREATE request with an empty payload gets the first active server of
  the server list, and the list has the latest registration first: a server registering
  under a new id (in naming_server.c under any id) is put at the head, active, and is the
  one the next such CREATE selects. When the server is connected and answers with success,
  the new file record is assigned to it.
\<close>

theorem C8_create_selects_latest_active:
  "create_select_ss servers [] widx =
     (case filter (\<lambda>s. ss_is_active s \<noteq> 0) servers of
        [] \<Rightarrow> Inl \<lparr>error_code = ERR_SS_UNAVAILABLE, word_index = widx,
                    data = Fmt ''Error: No storage server available'' []\<rparr>
      | s # rest \<Rightarrow> Inr s)
   \<and> (find_ss_by_id (co_servers co) (reg_ss_id reg) = None \<longrightarrow>
        co_servers (handle_register_ss co reg sock now) =
          (new_storage_server reg now)\<lparr>ss_socket := sock\<rparr> # co_servers co
        \<and> create_select_ss (co_servers (handle_register_ss co reg sock now)) [] widx =
            Inr ((new_storage_server reg now)\<lparr>ss_socket := sock\<rparr>))
   \<and> co_servers (handle_register_ss_ns co reg sock now) =
          (new_storage_server reg now)\<lparr>ss_socket := sock\<rparr> # co_servers co
   \<and> create_select_ss (co_servers (handle_register_ss_ns co reg sock now)) [] widx =
          Inr ((new_storage_server reg now)\<lparr>ss_socket := sock\<rparr>)
   \<and> (lookup_file (co_files co) filename = None
        \<and> create_select_ss (co_servers co) [] widx = Inr s
        \<and> 0 \<le> ss_socket s \<and> error_code ss_response = RESP_SUCCESS \<longrightarrow>
        lookup_file (co_files (snd (handle_create co filename client [] ss_response now widx))) filename
         = Some \<lparr>fe_name = filename, fe_owner = client, fe_storage_server_id = ss_id s,
                  fe_last_accessed = now, fe_acl = [], fe_access_requests = []\<rparr>)"
proof (intro conjI impI)
  show "create_select_ss servers [] widx =
     (case filter (\<lambda>s. ss_is_active s \<noteq> 0) servers of
        [] \<Rightarrow> Inl \<lparr>error_code = ERR_SS_UNAVAILABLE, word_index = widx,
                    data = Fmt ''Error: No storage server available'' []\<rparr>
      | s # rest \<Rightarrow> Inr s)"
    by (rule create_select_ss_default)
next
  assume n: "find_ss_by_id (co_servers co) (reg_ss_id reg) = None"
  show "co_servers (handle_register_ss co reg sock now) =
          (new_storage_server reg now)\<lparr>ss_socket := sock\<rparr> # co_servers co"
    by (rule handle_register_ss_new [OF n])
  show "create_select_ss (co_servers (handle_register_ss co reg sock now)) [] widx =
            Inr ((new_storage_server reg now)\<lparr>ss_socket := sock\<rparr>)"
    by (simp add: handle_register_ss_new [OF n] create_select_ss_default new_storage_server_active)
next
  show "co_servers (handle_register_ss_ns co reg sock now) =
          (new_storage_server reg now)\<lparr>ss_socket := sock\<rparr> # co_servers co"
    by (rule handle_register_ss_ns_servers)
  show "create_select_ss (co_servers (handle_register_ss_ns co reg sock now)) [] widx =
          Inr ((new_storage_server reg now)\<lparr>ss_socket := sock\<rparr>)"
    by (simp add: handle_register_ss_ns_servers create_select_ss_default new_storage_server_active)
next
  assume "lookup_file (co_files co) filename = None
        \<and> create_select_ss (co_servers co) [] widx = Inr s
        \<and> 0 \<le> ss_socket s \<and> error_code ss_response = RESP_SUCCESS"
  then show "lookup_file (co_files (snd (handle_create co filename client [] ss_response now widx))) filename
         = Some \<lparr>fe_name = filename, fe_owner = client, fe_storage_server_id = ss_id s,
                  fe_last_accessed = now, fe_acl = [], fe_access_requests = []\<rparr>"
    by (simp add: handle_create_assigns)
qed

text \<open>
  \<open>SS2\<close> registers after \<open>SS1\<close>; a file created while \<open>SS1\<close> is the only server.
\<close>

theorem C8_create_selects_latest_active_witness:
  "co_servers (handle_register_ss
      \<lparr>co_servers = [\<lparr>ss_id = ''SS1'', ss_ip = ''10.0.0.1'', ss_nm_port = 9001, ss_client_port = 8001,
                       ss_socket = 5, ss_is_active = 1, ss_last_heartbeat = 100, ss_failed = 0\<rparr>],
        co_files = [], co_cache = Map.empty, co_backups = Map.empty, co_parent_cache = Map.empty\<rparr>
      \<lparr>reg_ss_id = ''SS2'', reg_ip = ''10.0.0.2'', reg_nm_port = 9002, reg_client_port = 8002, reg_files = []\<rparr>
      6 200)
    = [\<lparr>ss_id = ''SS2'', ss_ip = ''10.0.0.2'', ss_nm_port = 9002, ss_client_port = 8002,
         ss_socket = 6, ss_is_active = 1, ss_last_heartbeat = 200, ss_failed = 0\<rparr>,
       \<lparr>ss_id = ''SS1'', ss_ip = ''10.0.0.1'', ss_nm_port = 9001, ss_client_port = 8001,
         ss_socket = 5, ss_is_active = 1, ss_last_heartbeat = 100, ss_failed = 0\<rparr>]
   \<and> lookup_file (co_files (snd (handle_create
        \<lparr>co_servers = [\<lparr>ss_id = ''SS1'', ss_ip = ''10.0.0.1'', ss_nm_port = 9001, ss_client_port = 8001,
                       ss_socket = 5, ss_is_active = 1, ss_last_heartbeat = 100, ss_failed = 0\<rparr>],
          co_files = [], co_cache = Map.empty, co_backups = Map.empty, co_parent_cache = Map.empty\<rparr>
        ''report'' ''alice'' [] \<lparr>error_code = RESP_SUCCESS, word_index = 0, data = Raw []\<rparr> 300 0))) ''report''
     = Some \<lparr>fe_name = ''report'', fe_owner = ''alice'', fe_storage_server_id = ''SS1'',
              fe_last_accessed = 300, fe_acl = [], fe_access_requests = []\<rparr>"
proof -
  let ?s1 = "\<lparr>ss_id = ''SS1'', ss_ip = ''10.0.0.1'', ss_nm_port = 9001, ss_client_port = 8001,
                ss_socket = 5, ss_is_active = 1, ss_last_heartbeat = 100, ss_failed = 0\<rparr>"
  let ?co = "\<lparr>co_servers = [?s1], co_files = [], co_cache = Map.empty, co_backups = Map.empty,
               co_parent_cache = Map.empty\<rparr>"
  show ?thesis
    using C8_create_selects_latest_active [where co = ?co and servers = "[?s1]" and s = ?s1
        and reg = "\<lparr>reg_ss_id = ''SS2'', reg_ip = ''10.0.0.2'', reg_nm_port = 9002,
                     reg_client_port = 8002, reg_files = []\<rparr>"
        and sock = 6 and now = 200 and widx = 0 and filename = "''report''" and client = "''alice''"
        and ss_response = "\<lparr>error_code = RESP_SUCCESS, word_index = 0, data = Raw []\<rparr>"]
      C8_create_selects_latest_active [where co = ?co and servers = "[?s1]" and s = ?s1
        and reg = "\<lparr>reg_ss_id = ''SS2'', reg_ip = ''10.0.0.2'', reg_nm_port = 9002,
                     reg_client_port = 8002, reg_files = []\<rparr>"
        and sock = 6 and now = 300 and widx = 0 and filename = "''report''" and client = "''alice''"
        and ss_response = "\<lparr>error_code = RESP_SUCCESS, word_index = 0, data = Raw []\<rparr>"]
    by (simp add: new_storage_server_def)
qed

text \<open>
  \<open>SS1\<close> registers, then \<open>SS2\<close>; both are active. CREATE without a server id selects
  \<open>SS2\<close>, the last registered, not \<open>SS1\<close>, the first.
\<close>

theorem C8_earliest_registered_counterexample:
  "create_select_ss (co_servers (handle_register_ss (handle_register_ss
      \<lparr>co_servers = [], co_files = [], co_cache = Map.empty, co_backups = Map.empty,
        co_parent_cache = Map.empty\<rparr>
      \<lparr>reg_ss_id = ''SS1'', reg_ip = ''10.0.0.1'', reg_nm_port = 9001, reg_client_port = 8001, reg_files = []\<rparr>
      5 100)
      \<lparr>reg_ss_id = ''SS2'', reg_ip = ''10.0.0.2'', reg_nm_port = 9002, reg_client_port = 8002, reg_files = []\<rparr>
      6 200)) [] 0
   = Inr \<lparr>ss_id = ''SS2'', ss_ip = ''10.0.0.2'', ss_nm_port = 9002, ss_client_port = 8002,
           ss_socket = 6, ss_is_active = 1, ss_last_heartbeat = 200, ss_failed = 0\<rparr>
   \<and> co_servers (handle_register_ss (handle_register_ss
      \<lparr>co_servers = [], co_files = [], co_cache = Map.empty, co_backups = Map.empty,
        co_parent_cache = Map.empty\<rparr>
      \<lparr>reg_ss_id = ''SS1'', reg_ip = ''10.0.0.1'', reg_nm_port = 9001, reg_client_port = 8001, reg_files = []\<rparr>
      5 100)
      \<lparr>reg_ss_id = ''SS2'', reg_ip = ''10.0.0.2'', reg_nm_port = 9002, reg_client_port = 8002, reg_files = []\<rparr>
      6 200)
   = [\<lparr>ss_id = ''SS2'', ss_ip = ''10.0.0.2'', ss_nm_port = 9002, ss_client_port = 8002,
         ss_socket = 6, ss_is_active = 1, ss_last_heartbeat = 200, ss_failed = 0\<rparr>,
      \<lparr>ss_id = ''SS1'', ss_ip = ''10.0.0.1'', ss_nm_port = 9001, ss_client_port = 8001,
         ss_socket = 5, ss_is_active = 1, ss_last_heartbeat = 100, ss_failed = 0\<rparr>]"
  by (simp add: create_select_ss_def handle_register_ss_def register_storage_server_def
        new_storage_server_def Let_def)

subsection \<open>READ with an unreachable storage server\<close>

lemma get_available_ss_active:
  "get_available_ss servers = Some s \<Longrightarrow> ss_is_active s \<noteq> 0 \<and> s \<in> set servers"
  by (induction servers) (auto split: if_splits)

lemma get_available_ss_None:
  "get_available_ss servers = None \<longleftrightarrow> (\<forall>s \<in> set servers. ss_is_active s = 0)"
  by (induction servers) auto

text \<open>
  naming_server_modular.c: for a reader with permission and a file whose server is unknown
  or not active, the cache is served first, then the backup (which is copied to the
  cache), then the file is reassigned to the first active server and the reply is a
  referral to it; the reply is \<open>ERR_SS_UNAVAILABLE\<close> exactly when there is no cached
  copy, no backup and no active server.
\<close>

lemma handle_read_modular_fallback:
  assumes perm: "check_permission e0 client 0 \<noteq> 0"
    and down: "case find_ss_by_id (co_servers co) (fe_storage_server_id e0) of
                 None \<Rightarrow> True | Some s \<Rightarrow> ss_is_active s = 0"
  shows "(\<forall>c. co_cache co fn = Some c \<longrightarrow>
            handle_read_modular co (Some e0) fn client now widx ip port =
              (\<lparr>error_code = RESP_SUCCESS, word_index = widx, data = Raw (take (MAX_DATA - 1) c),
                rr_ss_ip = ip, rr_ss_port = port\<rparr>,
               Some (e0\<lparr>fe_last_accessed := now\<rparr>), co_cache co))
     \<and> (\<forall>c. co_cache co fn = None \<and> co_backups co (fe_storage_server_id e0, fn) = Some c \<longrightarrow>
            handle_read_modular co (Some e0) fn client now widx ip port =
              (\<lparr>error_code = RESP_SUCCESS, word_index = widx, data = Raw (take (MAX_DATA - 1) c),
                rr_ss_ip = ip, rr_ss_port = port\<rparr>,
               Some (e0\<lparr>fe_last_accessed := now\<rparr>),
               (co_cache co)(fn \<mapsto> take (MAX_DATA - 1) c)))
     \<and> (\<forall>fo. co_cache co fn = None \<and> co_backups co (fe_storage_server_id e0, fn) = None
              \<and> get_available_ss (co_servers co) = Some fo \<longrightarrow>
            handle_read_modular co (Some e0) fn client now widx ip port =
              (\<lparr>error_code = RESP_SS_INFO, word_index = widx,
                data = Fmt ''Failover to %s:%d'' [AStr (ss_ip fo), AInt (ss_client_port fo)],
                rr_ss_ip = ss_ip fo, rr_ss_port = ss_client_port fo\<rparr>,
               Some (e0\<lparr>fe_last_accessed := now, fe_storage_server_id := ss_id fo\<rparr>), co_cache co))
     \<and> (error_code (fst (handle_read_modular co (Some e0) fn client now widx ip port)) = ERR_SS_UNAVAILABLE
          \<longleftrightarrow> co_cache co fn = None \<and> co_backups co (fe_storage_server_id e0, fn) = None
              \<and> get_available_ss (co_servers co) = None)"
proof -
  let ?ss = "find_ss_by_id (co_servers co) (fe_storage_server_id e0)"
  have ne: "Some fo \<noteq> ?ss" if "get_available_ss (co_servers co) = Some fo" for fo
  proof
    assume "Some fo = ?ss"
    with down have "ss_is_active fo = 0" by (cases ?ss) auto
    with get_available_ss_active [OF that] show False by simp
  qed
  have a: "\<forall>c. co_cache co fn = Some c \<longrightarrow>
            handle_read_modular co (Some e0) fn client now widx ip port =
              (\<lparr>error_code = RESP_SUCCESS, word_index = widx, data = Raw (take (MAX_DATA - 1) c),
                rr_ss_ip = ip, rr_ss_port = port\<rparr>,
               Some (e0\<lparr>fe_last_accessed := now\<rparr>), co_cache co)"
    using perm down
    by (cases ?ss) (simp_all add: handle_read_modular_def read_fallback_def Let_def)
  have b: "\<forall>c. co_cache co fn = None \<and> co_backups co (fe_storage_server_id e0, fn) = Some c \<longrightarrow>
            handle_read_modular co (Some e0) fn client now widx ip port =
              (\<lparr>error_code = RESP_SUCCESS, word_index = widx, data = Raw (take (MAX_DATA - 1) c),
                rr_ss_ip = ip, rr_ss_port = port\<rparr>,
               Some (e0\<lparr>fe_last_accessed := now\<rparr>),
               (co_cache co)(fn \<mapsto> take (MAX_DATA - 1) c))"
    using perm down
    by (cases ?ss) (simp_all add: handle_read_modular_def read_fallback_def Let_def)
  have c: "\<forall>fo. co_cache co fn = None \<and> co_backups co (fe_storage_server_id e0, fn) = None
              \<and> get_available_ss (co_servers co) = Some fo \<longrightarrow>
            handle_read_modular co (Some e0) fn client now widx ip port =
              (\<lparr>error_code = RESP_SS_INFO, word_index = widx,
                data = Fmt ''Failover to %s:%d'' [AStr (ss_ip fo), AInt (ss_client_port fo)],
                rr_ss_ip = ss_ip fo, rr_ss_port = ss_client_port fo\<rparr>,
               Some (e0\<lparr>fe_last_accessed := now, fe_storage_server_id := ss_id fo\<rparr>), co_cache co)"
    using perm down ne
    by (cases ?ss) (simp_all add: handle_read_modular_def read_fallback_def Let_def)
  have d: "error_code (fst (handle_read_modular co (Some e0) fn client now widx ip port)) = ERR_SS_UNAVAILABLE
          \<longleftrightarrow> co_cache co fn = None \<and> co_backups co (fe_storage_server_id e0, fn) = None
              \<and> get_available_ss (co_servers co) = None"
  proof (cases "co_cache co fn")
    case (Some c)
    with a show ?thesis by (simp add: resp_codes)
  next
    case None
    show ?thesis
    proof (cases "co_backups co (fe_storage_server_id e0, fn)")
      case (Some c)
      with None b show ?thesis by (simp add: resp_codes)
    next
      case nb: None
      show ?thesis
      proof (cases "get_available_ss (co_servers co)")
        case (Some fo)
        with None nb c show ?thesis by (simp add: resp_codes)
      next
        case ng: None
        with None nb perm down show ?thesis
          by (cases ?ss) (simp_all add: handle_read_modular_def read_fallback_def Let_def)
      qed
    qed
  qed
  from a b c d show ?thesis by blast
qed

text \<open>
  naming_server.c: for the same requests the reply is \<open>ERR_SS_UNAVAILABLE\<close>, whatever the
  cache, the backups and the other servers hold.
\<close>

lemma handle_read_unavailable:
  assumes "check_permission e0 client 0 \<noteq> 0"
    and "case find_ss_by_id (co_servers co) (fe_storage_server_id e0) of
           None \<Rightarrow> True | Some s \<Rightarrow> ss_is_active s = 0"
  shows "handle_read co (Some e0) fn client now widx ip port =
           (\<lparr>error_code = ERR_SS_UNAVAILABLE, word_index = widx,
             data = Fmt ''Error: Storage server unavailable'' [],
             rr_ss_ip = ip, rr_ss_port = port\<rparr>, Some (e0\<lparr>fe_last_accessed := now\<rparr>), co_cache co)"
proof (cases "find_ss_by_id (co_servers co) (fe_storage_server_id e0)")
  case None
  with assms(1) show ?thesis by (simp add: handle_read_def Let_def)
next
  case (Some s)
  with assms show ?thesis by (simp add: handle_read_def Let_def)
qed

text \<open>
  C7. The file \<open>report\<close> is on \<open>SS1\<close>, which is not active; the cache holds a copy and
  \<open>SS2\<close> is active. naming_server_modular.c serves the cached copy; naming_server.c
  answers \<open>ERR_SS_UNAVAILABLE\<close>.
\<close>

theorem C7_read_without_fallback:
  "error_code (fst (handle_read
      \<lparr>co_servers = [\<lparr>ss_id = ''SS2'', ss_ip = ''10.0.0.2'', ss_nm_port = 9002, ss_client_port = 8002,
                       ss_socket = 6, ss_is_active = 1, ss_last_heartbeat = 200, ss_failed = 0\<rparr>,
                      \<lparr>ss_id = ''SS1'', ss_ip = ''10.0.0.1'', ss_nm_port = 9001, ss_client_port = 8001,
                       ss_socket = - 1, ss_is_active = 0, ss_last_heartbeat = 100, ss_failed = 1\<rparr>],
        co_files = [], co_cache = [''report'' \<mapsto> ''hello''], co_backups = Map.empty,
        co_parent_cache = Map.empty\<rparr>
      (Some \<lparr>fe_name = ''report'', fe_owner = ''alice'', fe_storage_server_id = ''SS1'',
             fe_last_accessed = 0, fe_acl = [], fe_access_requests = []\<rparr>)
      ''report'' ''alice'' 300 0 [] 0)) = ERR_SS_UNAVAILABLE
   \<and> fst (handle_read_modular
      \<lparr>co_servers = [\<lparr>ss_id = ''SS2'', ss_ip = ''10.0.0.2'', ss_nm_port = 9002, ss_client_port = 8002,
                       ss_socket = 6, ss_is_active = 1, ss_last_heartbeat = 200, ss_failed = 0\<rparr>,
                      \<lparr>ss_id = ''SS1'', ss_ip = ''10.0.0.1'', ss_nm_port = 9001, ss_client_port = 8001,
                       ss_socket = - 1, ss_is_active = 0, ss_last_heartbeat = 100, ss_failed = 1\<rparr>],
        co_files = [], co_cache = [''report'' \<mapsto> ''hello''], co_backups = Map.empty,
        co_parent_cache = Map.empty\<rparr>
      (Some \<lparr>fe_name = ''report'', fe_owner = ''alice'', fe_storage_server_id = ''SS1'',
             fe_last_accessed = 0, fe_acl = [], fe_access_requests = []\<rparr>)
      ''report'' ''alice'' 300 0 [] 0)
     = \<lparr>error_code = RESP_SUCCESS, word_index = 0, data = Raw ''hello'',
         rr_ss_ip = [], rr_ss_port = 0\<rparr>"
  by (simp add: handle_read_def handle_read_modular_def read_fallback_def check_permission_def
        Let_def MAX_DATA_def)

end
